theory Spec2Isabelle
  imports Complex_Main
begin

section \<open>Values and errors\<close>

text \<open>
  JSON values, as Python's \<open>json\<close> module and pydantic read and write them. A Python
  \<open>dict\<close> with string keys is an association list of such values.
\<close>

datatype json =
    JNull
  | JBool bool
  | JInt int
  | JStr string
  | JArr "json list"
  | JObj "(string \<times> json) list"

type_synonym dict = "(string \<times> json) list"

text \<open>The exceptions the three modules raise or let through.\<close>

datatype error =
    ValidationError
  | DockerException string
  | APIError string

text \<open>Python's truth test on an \<open>Optional[str]\<close>: neither \<open>None\<close> nor empty.\<close>

definition truthy :: "string option \<Rightarrow> bool" where
  "truthy v = (case v of None \<Rightarrow> False | Some x \<Rightarrow> x \<noteq> [])"

section \<open>The shared key-value store\<close>

text \<open>
  The Redis keyspace, one component for each type of value the modules use: lists
  (index 0 is the head, the left end), hashes, plain strings with their time to live
  in seconds, and sets. A key that holds nothing is the empty list, the empty hash,
  \<open>None\<close>, or the empty set. A Redis set is kept as a list without repetitions; its
  order stands for the unspecified order in which \<open>smembers\<close> hands the members to
  Python. \<open>r_published\<close> records the messages sent to pub/sub channels.
\<close>

record store =
  r_lists :: "string \<Rightarrow> string list"
  r_hashes :: "string \<Rightarrow> (string \<rightharpoonup> string)"
  r_strings :: "string \<rightharpoonup> string \<times> nat option"
  r_sets :: "string \<Rightarrow> string list"
  r_published :: "(string \<times> string) list"

definition empty_store :: store where
  "empty_store = \<lparr>r_lists = (\<lambda>_. []), r_hashes = (\<lambda>_. Map.empty),
     r_strings = Map.empty, r_sets = (\<lambda>_. []), r_published = []\<rparr>"

subsection \<open>Lists\<close>

definition lpush :: "store \<Rightarrow> string \<Rightarrow> string \<Rightarrow> store" where
  "lpush s key v = s\<lparr>r_lists := (r_lists s)(key := v # r_lists s key)\<rparr>"

text \<open>\<open>RPOPLPUSH\<close>: take the tail element of the source, put it at the head of the target.\<close>

definition rpoplpush :: "store \<Rightarrow> string \<Rightarrow> string \<Rightarrow> string option \<times> store" where
  "rpoplpush s src dst =
     (if r_lists s src = [] then (None, s)
      else
        let v = last (r_lists s src);
            s1 = s\<lparr>r_lists := (r_lists s)(src := butlast (r_lists s src))\<rparr>
        in (Some v, s1\<lparr>r_lists := (r_lists s1)(dst := v # r_lists s1 dst)\<rparr>))"

text \<open>
  \<open>BRPOPLPUSH\<close> waits up to the timeout for an element. With no other client pushing
  while it waits, it ends as \<open>RPOPLPUSH\<close> does. The wait itself is not part of the
  model: on an empty list the client, whose socket gives up after five seconds, can
  raise a timeout error where the model answers \<open>None\<close>. On a list that is not empty
  the two commands do the same at once.
\<close>

definition brpoplpush :: "store \<Rightarrow> string \<Rightarrow> string \<Rightarrow> int \<Rightarrow> string option \<times> store" where
  "brpoplpush s src dst timeout = rpoplpush s src dst"

fun remove_n :: "nat \<Rightarrow> 'a \<Rightarrow> 'a list \<Rightarrow> 'a list" where
  "remove_n 0 v xs = xs"
| "remove_n (Suc n) v [] = []"
| "remove_n (Suc n) v (x # xs) = (if x = v then remove_n n v xs else x # remove_n (Suc n) v xs)"

text \<open>
  \<open>LREM key count value\<close>: a positive count removes that many occurrences from the head
  on, a negative one from the tail on, zero removes all.
\<close>

definition lrem :: "store \<Rightarrow> string \<Rightarrow> int \<Rightarrow> string \<Rightarrow> store" where
  "lrem s key count v =
     s\<lparr>r_lists := (r_lists s)(key :=
        (if count > 0 then remove_n (nat count) v (r_lists s key)
         else if count < 0 then rev (remove_n (nat (- count)) v (rev (r_lists s key)))
         else removeAll v (r_lists s key)))\<rparr>"

definition llen :: "store \<Rightarrow> string \<Rightarrow> nat" where
  "llen s key = length (r_lists s key)"

subsection \<open>Hashes\<close>

text \<open>\<open>HSET key mapping\<close> writes the given fields and leaves every other field as it is.\<close>

definition hset_mapping :: "store \<Rightarrow> string \<Rightarrow> (string \<times> string) list \<Rightarrow> store" where
  "hset_mapping s key mapping =
     s\<lparr>r_hashes := (r_hashes s)(key := fold (\<lambda>(f, v) h. h(f \<mapsto> v)) mapping (r_hashes s key))\<rparr>"

definition hset :: "store \<Rightarrow> string \<Rightarrow> string \<Rightarrow> string \<Rightarrow> store" where
  "hset s key field v = s\<lparr>r_hashes := (r_hashes s)(key := (r_hashes s key)(field \<mapsto> v))\<rparr>"

definition hgetall :: "store \<Rightarrow> string \<Rightarrow> (string \<rightharpoonup> string)" where
  "hgetall s key = r_hashes s key"

subsection \<open>Strings, sets, keys, channels\<close>

definition set_key :: "store \<Rightarrow> string \<Rightarrow> string \<Rightarrow> store" where
  "set_key s key v = s\<lparr>r_strings := (r_strings s)(key \<mapsto> (v, None))\<rparr>"

definition setex :: "store \<Rightarrow> string \<Rightarrow> nat \<Rightarrow> string \<Rightarrow> store" where
  "setex s key ttl v = s\<lparr>r_strings := (r_strings s)(key \<mapsto> (v, Some ttl))\<rparr>"

definition get_key :: "store \<Rightarrow> string \<Rightarrow> string option" where
  "get_key s key = map_option fst (r_strings s key)"

definition sadd :: "store \<Rightarrow> string \<Rightarrow> string \<Rightarrow> store" where
  "sadd s key m =
     (if m \<in> set (r_sets s key) then s
      else s\<lparr>r_sets := (r_sets s)(key := r_sets s key @ [m])\<rparr>)"

definition srem :: "store \<Rightarrow> string \<Rightarrow> string \<Rightarrow> store" where
  "srem s key m = s\<lparr>r_sets := (r_sets s)(key := removeAll m (r_sets s key))\<rparr>"

definition smembers :: "store \<Rightarrow> string \<Rightarrow> string list" where
  "smembers s key = r_sets s key"

text \<open>\<open>EXISTS\<close> counts the key if it holds a value of any type.\<close>

definition exists_key :: "store \<Rightarrow> string \<Rightarrow> nat" where
  "exists_key s key =
     (if r_strings s key \<noteq> None \<or> r_hashes s key \<noteq> Map.empty
         \<or> r_lists s key \<noteq> [] \<or> r_sets s key \<noteq> [] then 1 else 0)"

definition delete_key :: "store \<Rightarrow> string \<Rightarrow> store" where
  "delete_key s key =
     s\<lparr>r_lists := (r_lists s)(key := []),
       r_hashes := (r_hashes s)(key := Map.empty),
       r_strings := (r_strings s)(key := None),
       r_sets := (r_sets s)(key := [])\<rparr>"

definition publish :: "store \<Rightarrow> string \<Rightarrow> string \<Rightarrow> store" where
  "publish s channel message = s\<lparr>r_published := r_published s @ [(channel, message)]\<rparr>"

section \<open>Messaging: task queues and result records\<close>

record task_message =
  task_id :: string
  msg_type :: string
  source :: string
  destination :: string
  timestamp :: string
  payload :: dict
  metadata :: dict

record task_result =
  result_task_id :: string
  status :: string
  output_dict :: "dict option"
  error :: "string option"
  started_at :: "string option"
  completed_at :: "string option"

text \<open>
  The serialisers are pydantic's and the \<open>json\<close> module's, not this repository's; the
  operations take them as a parameter. \<open>from_json\<close> and \<open>json_loads\<close> give \<open>None\<close>
  where the library raises (a validation or a decoding error).
\<close>

record codec =
  to_json :: "task_message \<Rightarrow> string"
  from_json :: "string \<Rightarrow> task_message option"
  json_dumps :: "json \<Rightarrow> string"
  json_loads :: "string \<Rightarrow> json option"

text \<open>
  The message \<open>publish_task\<close> builds. \<open>uuid\<close> and \<open>now\<close> are what \<open>uuid.uuid4()\<close> and
  the clock give to the two default factories of \<open>TaskMessage\<close>.
\<close>

definition new_task_message ::
  "string \<Rightarrow> string \<Rightarrow> string \<Rightarrow> string \<Rightarrow> json list option \<Rightarrow> dict option \<Rightarrow> string \<Rightarrow> int
     \<Rightarrow> string \<Rightarrow> task_message" where
  "new_task_message uuid now domain description requirements context priority timeout_seconds src =
     \<lparr>task_id = uuid, msg_type = ''task_assignment'', source = src, destination = domain,
      timestamp = now,
      payload =
        [(''description'', JStr description),
         (''requirements'', JArr (case requirements of None \<Rightarrow> [] | Some r \<Rightarrow> r)),
         (''context'', JObj (case context of None \<Rightarrow> [] | Some d \<Rightarrow> d))],
      metadata =
        [(''priority'', JStr priority), (''timeout_seconds'', JInt timeout_seconds)]\<rparr>"

text \<open>The keys of a domain's two lists and of a task's result hash.\<close>

definition queue_key :: "string \<Rightarrow> string" where
  "queue_key domain = ''tasks:pending:'' @ domain"

definition active_key :: "string \<Rightarrow> string" where
  "active_key domain = ''tasks:active:'' @ domain"

definition result_key :: "string \<Rightarrow> string" where
  "result_key tid = ''results:'' @ tid"

text \<open>\<open>_init_result\<close>: \<open>to_dict\<close> drops the fields that are \<open>None\<close>, so two fields are written.\<close>

definition init_result :: "store \<Rightarrow> string \<Rightarrow> store" where
  "init_result s tid =
     hset_mapping s (result_key tid) [(''task_id'', tid), (''status'', ''pending'')]"

definition update_result :: "store \<Rightarrow> string \<Rightarrow> (string \<times> string) list \<Rightarrow> string \<Rightarrow> store" where
  "update_result s tid kwargs now =
     hset_mapping s (result_key tid)
       (if map_of kwargs ''status'' = Some ''in_progress''
        then kwargs @ [(''started_at'', now)] else kwargs)"

definition publish_task ::
  "codec \<Rightarrow> store \<Rightarrow> string \<Rightarrow> string \<Rightarrow> json list option \<Rightarrow> dict option \<Rightarrow> string \<Rightarrow> int
     \<Rightarrow> string \<Rightarrow> string \<Rightarrow> string \<Rightarrow> string \<times> store" where
  "publish_task c s domain description requirements context priority timeout_seconds src uuid now =
     (let task = new_task_message uuid now domain description requirements context priority
                   timeout_seconds src;
          s1 = lpush s (queue_key domain) (to_json c task);
          s2 = init_result s1 (task_id task);
          s3 = publish s2 (''notifications:'' @ domain) (to_json c task)
      in (task_id task, s3))"

text \<open>
  \<open>get_next_task\<close>. The element has already moved to the active list when the message
  is parsed, so the store that comes back is the changed one on every path.
\<close>

definition get_next_task ::
  "codec \<Rightarrow> store \<Rightarrow> string \<Rightarrow> int \<Rightarrow> string \<Rightarrow> (error + task_message option) \<times> store" where
  "get_next_task c s domain timeout now =
     (let (result, s1) =
            (if timeout > 0 then brpoplpush s (queue_key domain) (active_key domain) timeout
             else rpoplpush s (queue_key domain) (active_key domain))
      in case result of
           None \<Rightarrow> (Inr None, s1)
         | Some r \<Rightarrow>
             if r = [] then (Inr None, s1)
             else (case from_json c r of
                     None \<Rightarrow> (Inl ValidationError, s1)
                   | Some task \<Rightarrow>
                       (Inr (Some task),
                        update_result s1 (task_id task) [(''status'', ''in_progress'')] now)))"

definition complete_task :: "codec \<Rightarrow> store \<Rightarrow> string \<Rightarrow> task_message \<Rightarrow> store" where
  "complete_task c s domain task = lrem s (active_key domain) 1 (to_json c task)"

definition get_queue_length :: "store \<Rightarrow> string \<Rightarrow> nat" where
  "get_queue_length s domain = llen s (queue_key domain)"

text \<open>
  \<open>publish_result\<close>: the error is written only when it is a non-empty string; the
  notification carries the same fields as a JSON object.
\<close>

definition publish_result ::
  "codec \<Rightarrow> store \<Rightarrow> string \<Rightarrow> dict \<Rightarrow> string \<Rightarrow> string option \<Rightarrow> string \<Rightarrow> store" where
  "publish_result c s tid output_arg status_arg error_arg now =
     (let result_data =
            [(''status'', status_arg),
             (''output'', json_dumps c (JObj output_arg)),
             (''completed_at'', now)]
            @ (case error_arg of
                 None \<Rightarrow> []
               | Some e \<Rightarrow> if e = [] then [] else [(''error'', e)]);
          s1 = hset_mapping s (result_key tid) result_data
      in publish s1 (result_key tid)
           (json_dumps c (JObj (map (\<lambda>(k, v). (k, JStr v)) result_data))))"

text \<open>
  What \<open>get_result\<close> hands to \<open>TaskResult.from_dict\<close>: the strings of the hash, the
  output replaced by the parsed value where \<open>json.loads\<close> accepted it.
\<close>

datatype pyval = PStr string | PJson json

fun as_str :: "pyval \<Rightarrow> string option" where
  "as_str (PStr x) = Some x"
| "as_str (PJson (JStr x)) = Some x"
| "as_str (PJson _) = None"

fun as_dict :: "pyval \<Rightarrow> dict option" where
  "as_dict (PJson (JObj d)) = Some d"
| "as_dict _ = None"

text \<open>
  Validation of an optional field: absent gives \<open>None\<close>, and so does Python's \<open>None\<close>,
  which is what \<open>json.loads\<close> makes of \<open>null\<close>; a value of the wrong type is the
  validation error (\<open>Inl\<close>).
\<close>

definition optional_field :: "(pyval \<Rightarrow> 'a option) \<Rightarrow> pyval option \<Rightarrow> error + 'a option" where
  "optional_field as v =
     (case v of
        None \<Rightarrow> Inr None
      | Some x \<Rightarrow>
          if x = PJson JNull then Inr None
          else (case as x of None \<Rightarrow> Inl ValidationError | Some y \<Rightarrow> Inr (Some y)))"

text \<open>A field with a default: absent gives the default, any value must have the type.\<close>

definition defaulted_field :: "(pyval \<Rightarrow> 'a option) \<Rightarrow> 'a \<Rightarrow> pyval option \<Rightarrow> error + 'a" where
  "defaulted_field as dflt v =
     (case v of
        None \<Rightarrow> Inr dflt
      | Some x \<Rightarrow> (case as x of None \<Rightarrow> Inl ValidationError | Some y \<Rightarrow> Inr y))"

text \<open>
  \<open>TaskResult.from_dict\<close>, pydantic's \<open>model_validate\<close>: \<open>task_id\<close> is required, \<open>status\<close>
  defaults to \<open>pending\<close>, the other four are optional, fields it does not know are
  ignored.
\<close>

definition task_result_from_dict :: "(string \<rightharpoonup> pyval) \<Rightarrow> error + task_result" where
  "task_result_from_dict data =
     (case data ''task_id'' of
        None \<Rightarrow> Inl ValidationError
      | Some t \<Rightarrow>
     (case as_str t of
        None \<Rightarrow> Inl ValidationError
      | Some tid \<Rightarrow>
     (case defaulted_field as_str ''pending'' (data ''status'') of
        Inl e \<Rightarrow> Inl e
      | Inr st \<Rightarrow>
     (case optional_field as_dict (data ''output'') of
        Inl e \<Rightarrow> Inl e
      | Inr out \<Rightarrow>
     (case optional_field as_str (data ''error'') of
        Inl e \<Rightarrow> Inl e
      | Inr err \<Rightarrow>
     (case optional_field as_str (data ''started_at'') of
        Inl e \<Rightarrow> Inl e
      | Inr started \<Rightarrow>
     (case optional_field as_str (data ''completed_at'') of
        Inl e \<Rightarrow> Inl e
      | Inr completed \<Rightarrow>
          Inr \<lparr>result_task_id = tid,
               status = st,
               output_dict = out, error = err,
               started_at = started, completed_at = completed\<rparr>)))))))"

text \<open>
  \<open>get_result\<close>, the read that follows the optional wait. With a positive timeout the
  source first waits on the task's channel and polls the hash; the wait writes nothing,
  and the read below is the same.
\<close>

definition get_result :: "codec \<Rightarrow> store \<Rightarrow> string \<Rightarrow> error + task_result option" where
  "get_result c s tid =
     (let data = hgetall s (result_key tid) in
      if data \<noteq> Map.empty then
        (let parsed =
               (case data ''output'' of
                  None \<Rightarrow> map_option PStr \<circ> data
                | Some text \<Rightarrow>
                    if text \<noteq> [] then
                      (case json_loads c text of
                         Some j \<Rightarrow> (map_option PStr \<circ> data)(''output'' \<mapsto> PJson j)
                       | None \<Rightarrow> map_option PStr \<circ> data)
                    else map_option PStr \<circ> data)
         in case task_result_from_dict parsed of
              Inl e \<Rightarrow> Inl e
            | Inr r \<Rightarrow> Inr (Some r))
      else Inr None)"

section \<open>Registry: agents and heartbeat leases\<close>

record agent_info =
  agent_id :: string
  role :: string
  domain_type :: "string option"
  agent_status :: string
  container_id :: "string option"
  created_at :: string
  last_heartbeat :: "string option"

text \<open>\<open>AgentInfo.to_dict\<close>: the fields in their order of declaration, those that are \<open>None\<close> left out.\<close>

definition agent_to_dict :: "agent_info \<Rightarrow> (string \<times> string) list" where
  "agent_to_dict a =
     [(''agent_id'', agent_id a), (''role'', role a)]
     @ (case domain_type a of None \<Rightarrow> [] | Some d \<Rightarrow> [(''domain_type'', d)])
     @ [(''status'', agent_status a)]
     @ (case container_id a of None \<Rightarrow> [] | Some x \<Rightarrow> [(''container_id'', x)])
     @ [(''created_at'', created_at a)]
     @ (case last_heartbeat a of None \<Rightarrow> [] | Some h \<Rightarrow> [(''last_heartbeat'', h)])"

text \<open>
  \<open>AgentInfo.from_dict\<close>: \<open>agent_id\<close> and \<open>role\<close> are required; \<open>status\<close> defaults to
  \<open>starting\<close> and \<open>created_at\<close> to the time of the call. Every value of a hash is a
  string, so no field can have the wrong type.
\<close>

definition agent_from_dict :: "(string \<rightharpoonup> string) \<Rightarrow> string \<Rightarrow> error + agent_info" where
  "agent_from_dict data now =
     (case data ''agent_id'' of
        None \<Rightarrow> Inl ValidationError
      | Some aid \<Rightarrow>
     (case data ''role'' of
        None \<Rightarrow> Inl ValidationError
      | Some r \<Rightarrow>
          Inr \<lparr>agent_id = aid, role = r, domain_type = data ''domain_type'',
               agent_status = (case data ''status'' of None \<Rightarrow> ''starting'' | Some x \<Rightarrow> x),
               container_id = data ''container_id'',
               created_at = (case data ''created_at'' of None \<Rightarrow> now | Some x \<Rightarrow> x),
               last_heartbeat = data ''last_heartbeat''\<rparr>))"

definition HEARTBEAT_TTL :: nat where
  "HEARTBEAT_TTL = 30"

definition info_key :: "string \<Rightarrow> string" where
  "info_key aid = ''agents:info:'' @ aid"

definition heartbeat_key :: "string \<Rightarrow> string" where
  "heartbeat_key aid = ''agents:heartbeat:'' @ aid"

definition domains_key :: "string \<Rightarrow> string" where
  "domains_key dt = ''agents:domains:'' @ dt"

text \<open>
  \<open>register\<close>. The pipeline runs its commands in the order they were queued.
  \<open>created\<close> is the clock reading of the \<open>created_at\<close> default, \<open>now\<close> that of the lease.
\<close>

definition register ::
  "store \<Rightarrow> string \<Rightarrow> string \<Rightarrow> string option \<Rightarrow> string option \<Rightarrow> string \<Rightarrow> string
     \<Rightarrow> agent_info \<times> store" where
  "register s aid rl dt cid created now =
     (let agent = \<lparr>agent_id = aid, role = rl, domain_type = dt, agent_status = ''active'',
                    container_id = cid, created_at = created, last_heartbeat = None\<rparr>;
          p1 = hset_mapping s (info_key aid) (agent_to_dict agent);
          p2 = sadd p1 ''agents:all'' aid;
          p3 = (if rl = ''main'' then set_key p2 ''agents:main'' aid
                else if rl = ''domain'' then
                  (let q = sadd p2 ''agents:domains'' aid
                   in case dt of
                        None \<Rightarrow> q
                      | Some d \<Rightarrow> if d = [] then q else sadd q (domains_key d) aid)
                else if rl = ''worker'' then sadd p2 ''agents:workers'' aid
                else p2);
          p4 = setex p3 (heartbeat_key aid) HEARTBEAT_TTL now
      in (agent, p4))"

definition get_agent :: "store \<Rightarrow> string \<Rightarrow> string \<Rightarrow> error + agent_info option" where
  "get_agent s aid now =
     (let data = hgetall s (info_key aid) in
      if data \<noteq> Map.empty then
        (case agent_from_dict data now of Inl e \<Rightarrow> Inl e | Inr a \<Rightarrow> Inr (Some a))
      else Inr None)"

definition deregister :: "store \<Rightarrow> string \<Rightarrow> string \<Rightarrow> (error + bool) \<times> store" where
  "deregister s aid now =
     (case get_agent s aid now of
        Inl e \<Rightarrow> (Inl e, s)
      | Inr None \<Rightarrow> (Inr False, s)
      | Inr (Some info) \<Rightarrow>
          (let p1 = srem s ''agents:all'' aid;
               p2 = (if role info = ''main'' then delete_key p1 ''agents:main''
                     else if role info = ''domain'' then
                       (let q = srem p1 ''agents:domains'' aid
                        in case domain_type info of
                             None \<Rightarrow> q
                           | Some d \<Rightarrow> if d = [] then q else srem q (domains_key d) aid)
                     else if role info = ''worker'' then srem p1 ''agents:workers'' aid
                     else p1);
               p3 = delete_key p2 (info_key aid);
               p4 = delete_key p3 (heartbeat_key aid)
           in (Inr True, p4)))"

text \<open>The loop of \<open>list_agents\<close> and \<open>get_domain_orchestrators\<close> over the member ids.\<close>

fun collect_agents :: "store \<Rightarrow> string list \<Rightarrow> string \<Rightarrow> error + agent_info list" where
  "collect_agents s [] now = Inr []"
| "collect_agents s (aid # aids) now =
     (case get_agent s aid now of
        Inl e \<Rightarrow> Inl e
      | Inr None \<Rightarrow> collect_agents s aids now
      | Inr (Some a) \<Rightarrow>
          (case collect_agents s aids now of Inl e \<Rightarrow> Inl e | Inr as \<Rightarrow> Inr (a # as)))"

definition list_agents :: "store \<Rightarrow> string option \<Rightarrow> string \<Rightarrow> error + agent_info list" where
  "list_agents s rl now =
     collect_agents s
       (if rl = Some ''domain'' then smembers s ''agents:domains''
        else if rl = Some ''worker'' then smembers s ''agents:workers''
        else smembers s ''agents:all'') now"

definition get_main_orchestrator :: "store \<Rightarrow> string \<Rightarrow> error + agent_info option" where
  "get_main_orchestrator s now =
     (case get_key s ''agents:main'' of
        None \<Rightarrow> Inr None
      | Some aid \<Rightarrow> if aid = [] then Inr None else get_agent s aid now)"

definition get_domain_orchestrators ::
  "store \<Rightarrow> string option \<Rightarrow> string \<Rightarrow> error + agent_info list" where
  "get_domain_orchestrators s dt now =
     collect_agents s
       (case dt of
          None \<Rightarrow> smembers s ''agents:domains''
        | Some d \<Rightarrow> if d = [] then smembers s ''agents:domains'' else smembers s (domains_key d))
       now"

definition is_healthy :: "store \<Rightarrow> string \<Rightarrow> bool" where
  "is_healthy s aid = (exists_key s (heartbeat_key aid) > 0)"

definition find_available_domain :: "store \<Rightarrow> string \<Rightarrow> string \<Rightarrow> error + agent_info option" where
  "find_available_domain s dt now =
     (case get_domain_orchestrators s (Some dt) now of
        Inl e \<Rightarrow> Inl e
      | Inr domains \<Rightarrow>
          (case filter (\<lambda>d. agent_status d = ''active'' \<and> is_healthy s (agent_id d)) domains of
             [] \<Rightarrow> Inr None
           | a # _ \<Rightarrow> Inr (Some a)))"

definition heartbeat :: "store \<Rightarrow> string \<Rightarrow> string \<Rightarrow> bool \<times> store" where
  "heartbeat s aid now =
     (let p1 = setex s (heartbeat_key aid) HEARTBEAT_TTL now;
          p2 = hset p1 (info_key aid) ''last_heartbeat'' now
      in (True, p2))"

definition update_status :: "store \<Rightarrow> string \<Rightarrow> string \<Rightarrow> bool \<times> store" where
  "update_status s aid st = (True, hset s (info_key aid) ''status'' st)"

definition set_busy :: "store \<Rightarrow> string \<Rightarrow> bool \<times> store" where
  "set_busy s aid = update_status s aid ''busy''"

definition set_active :: "store \<Rightarrow> string \<Rightarrow> bool \<times> store" where
  "set_active s aid = update_status s aid ''active''"

section \<open>Spawner: domain containers\<close>

record domain_config =
  cfg_domain_type :: string
  image :: string
  memory_limit :: string
  cpu_limit :: rat
  network :: string
  redis_url :: string

text \<open>The fields of a \<open>DomainSpawner\<close> that \<open>spawn_domain\<close> reads.\<close>

record spawner =
  default_image :: string
  default_network :: string

text \<open>
  What the process finds around it: the API key and the project root of the
  environment, which paths exist, and the 32 hexadecimal digits of \<open>uuid.uuid4().hex\<close>.
\<close>

record os_env =
  api_key :: string
  project_root :: string
  path_exists :: "string \<Rightarrow> bool"
  uuid_hex :: string

text \<open>The keyword arguments of \<open>containers.run\<close>.\<close>

record run_request =
  run_image :: string
  run_name :: string
  run_hostname :: string
  run_detach :: bool
  run_environment :: "(string \<times> string) list"
  run_labels :: "(string \<times> string) list"
  run_volumes :: "(string \<times> string \<times> string) list"
  run_network :: string
  run_mem_limit :: string
  run_cpu_quota :: int
  run_restart_policy :: string

definition LABEL_PREFIX :: string where
  "LABEL_PREFIX = ''distributed-agent-network''"

definition DOMAIN_LABEL :: string where
  "DOMAIN_LABEL = LABEL_PREFIX @ ''.domain''"

definition DOMAIN_ID_LABEL :: string where
  "DOMAIN_ID_LABEL = LABEL_PREFIX @ ''.domain-id''"

text \<open>
  \<open>os.path.join\<close> of two components: an absolute second component stands alone, and
  the separator is added only after a first component that is not empty and does not
  end with one. The call with more components joins them from the left.
\<close>

definition path_join :: "string \<Rightarrow> string \<Rightarrow> string" where
  "path_join a b =
     (if b \<noteq> [] \<and> hd b = CHR ''/'' then b
      else if a = [] \<or> last a = CHR ''/'' then a @ b
      else a @ ''/'' @ b)"

definition get_domain_volumes :: "os_env \<Rightarrow> string \<Rightarrow> (string \<times> string \<times> string) list" where
  "get_domain_volumes env dt =
     (let domain_config_path =
            path_join (path_join (path_join (project_root env) ''agents'') ''domain-templates'') dt
      in [(path_join (project_root env) ''workspace'', ''/workspace'', ''rw''),
          (path_join (project_root env) ''lib'', ''/lib'', ''ro'')]
         @ (if path_exists env domain_config_path
            then [(domain_config_path, ''/agent-config'', ''ro'')] else []))"

text \<open>
  Python's \<open>int\<close> of a number: the fraction is cut off, towards zero. The CPU limit is
  a float in the source; here it is a rational and the product with 100000 is exact,
  so the quota can differ by one from the source's where the float product is rounded
  (0.29 gives 28999 there). The quota is part of the request handed to the runtime
  and of nothing else.
\<close>

definition py_int :: "rat \<Rightarrow> int" where
  "py_int x = (if x \<ge> 0 then \<lfloor>x\<rfloor> else \<lceil>x\<rceil>)"

text \<open>Python's \<open>str\<close> of an integer, for the messages that quote one.\<close>

definition digit :: "nat \<Rightarrow> char" where
  "digit n = ''0123456789'' ! (n mod 10)"

function str_nat :: "nat \<Rightarrow> string" where
  "str_nat n = (if n < 10 then [digit n] else str_nat (n div 10) @ [digit n])"
  by pat_completeness auto
termination
  by (relation "measure id") auto

declare str_nat.simps [simp del]

definition str_int :: "int \<Rightarrow> string" where
  "str_int i = (if i < 0 then ''-'' @ str_nat (nat (- i)) else str_nat (nat i))"

text \<open>
  The container runtime is outside the program; its answers are given. \<open>rt_run\<close> is
  the answer to \<open>containers.run\<close>: the id of the new container, or the message of an
  \<open>APIError\<close>. \<open>rt_get cid i\<close> is the answer to the \<open>i\<close>-th \<open>containers.get\<close> of the wait:
  the status of the container and the lines of its log, \<open>NotFound\<close>, or another
  \<open>APIError\<close>. Time is counted in milliseconds: \<open>rt_clock\<close> is the reading when the wait
  begins, \<open>rt_latency i\<close> the time the \<open>i\<close>-th round of the loop takes besides its sleep.
\<close>

datatype get_answer = Found string "string list" | NotFound | GetError string

record runtime =
  rt_run :: "run_request \<Rightarrow> string + string"
  rt_get :: "string \<Rightarrow> nat \<Rightarrow> get_answer"
  rt_clock :: int
  rt_latency :: "nat \<Rightarrow> nat"

text \<open>\<open>container.logs(tail=n).decode()\<close>: the last \<open>n\<close> lines of the log, each ended by a newline.\<close>

definition logs_tail :: "nat \<Rightarrow> string list \<Rightarrow> string" where
  "logs_tail n lines = concat (map (\<lambda>l. l @ [CHR 0x0A]) (drop (length lines - n) lines))"

text \<open>
  The loop of \<open>_wait_for_container\<close>: \<open>t\<close> is the clock at the test of the loop, \<open>i\<close>
  counts the rounds. A round that neither returns nor raises sleeps half a second.
\<close>

function wait_loop :: "runtime \<Rightarrow> string \<Rightarrow> int \<Rightarrow> int \<Rightarrow> int \<Rightarrow> nat \<Rightarrow> error + unit" where
  "wait_loop rt cid timeout deadline t i =
     (if t < deadline then
        (case rt_get rt cid i of
           NotFound \<Rightarrow> Inl (DockerException (''Container '' @ cid @ '' not found''))
         | GetError e \<Rightarrow> Inl (APIError e)
         | Found st lines \<Rightarrow>
             if st = ''running'' then Inr ()
             else if st = ''exited'' \<or> st = ''dead'' then
               Inl (DockerException
                     (''Container exited unexpectedly. Logs:'' @ [CHR 0x0A] @ logs_tail 50 lines))
             else wait_loop rt cid timeout deadline (t + int (rt_latency rt i) + 500) (Suc i))
      else Inl (DockerException (''Container did not start within '' @ str_int timeout @ ''s'')))"
  by pat_completeness auto
termination
  by (relation "measure (\<lambda>(rt, cid, timeout, deadline, t, i). nat (deadline - t))") auto

declare wait_loop.simps [simp del]

definition wait_for_container :: "runtime \<Rightarrow> string \<Rightarrow> int \<Rightarrow> error + unit" where
  "wait_for_container rt cid timeout =
     wait_loop rt cid timeout (rt_clock rt + timeout * 1000) (rt_clock rt) 0"

definition spawn_request :: "os_env \<Rightarrow> domain_config \<Rightarrow> string \<Rightarrow> string \<Rightarrow> run_request" where
  "spawn_request env config dt domain_id =
     \<lparr>run_image = image config,
      run_name = ''domain-'' @ domain_id,
      run_hostname = domain_id,
      run_detach = True,
      run_environment =
        [(''AGENT_ROLE'', ''domain''), (''AGENT_ID'', domain_id), (''DOMAIN_TYPE'', dt),
         (''REDIS_URL'', redis_url config), (''ANTHROPIC_API_KEY'', api_key env)],
      run_labels =
        [(DOMAIN_LABEL, dt), (DOMAIN_ID_LABEL, domain_id), (LABEL_PREFIX @ ''.managed'', ''true'')],
      run_volumes = get_domain_volumes env dt,
      run_network = network config,
      run_mem_limit = memory_limit config,
      run_cpu_quota = py_int (cpu_limit config * 100000),
      run_restart_policy = ''unless-stopped''\<rparr>"

text \<open>
  The configuration \<open>spawn_domain\<close> builds when it is given none: the spawner's image
  and network, the other fields at the defaults of \<open>DomainConfig\<close>.
\<close>

definition default_config :: "spawner \<Rightarrow> string \<Rightarrow> domain_config" where
  "default_config sp dt =
     \<lparr>cfg_domain_type = dt, image = default_image sp, memory_limit = ''1g'',
      cpu_limit = 1 / 2, network = default_network sp,
      redis_url = ''redis://message-broker:6379''\<rparr>"

text \<open>
  \<open>spawn_domain\<close>. An \<open>APIError\<close> of the runtime, from the creation or from the wait, is
  raised again as a \<open>DockerException\<close>; what the wait raises itself comes through as it is.
\<close>

definition spawn_domain ::
  "spawner \<Rightarrow> os_env \<Rightarrow> runtime \<Rightarrow> string \<Rightarrow> domain_config option \<Rightarrow> bool \<Rightarrow> int
     \<Rightarrow> error + string" where
  "spawn_domain sp env rt dt config wait_for_start timeout =
     (let config1 = (case config of None \<Rightarrow> default_config sp dt | Some cfg \<Rightarrow> cfg);
          domain_id = dt @ ''-'' @ take 8 (uuid_hex env)
      in case rt_run rt (spawn_request env config1 dt domain_id) of
           Inl e \<Rightarrow> Inl (DockerException (''Failed to spawn domain '' @ dt @ '': '' @ e))
         | Inr cid \<Rightarrow>
             if wait_for_start then
               (case wait_for_container rt cid timeout of
                  Inl (APIError e) \<Rightarrow>
                    Inl (DockerException (''Failed to spawn domain '' @ dt @ '': '' @ e))
                | Inl e \<Rightarrow> Inl e
                | Inr _ \<Rightarrow> Inr domain_id)
             else Inr domain_id)"

text \<open>
  The containers the runtime knows, for \<open>stop_domain\<close>. \<open>containers.list\<close> with
  \<open>all=True\<close> and a label filter gives those that carry the label with that value.
\<close>

record container =
  c_id :: string
  c_name :: string
  c_labels :: "(string \<times> string) list"
  c_status :: string

definition containers_list :: "container list \<Rightarrow> string \<Rightarrow> string \<Rightarrow> container list" where
  "containers_list docker label v = filter (\<lambda>x. map_of (c_labels x) label = Some v) docker"

definition find_container_by_domain_id :: "container list \<Rightarrow> string \<Rightarrow> container option" where
  "find_container_by_domain_id docker domain_id =
     (case containers_list docker DOMAIN_ID_LABEL domain_id of [] \<Rightarrow> None | x # _ \<Rightarrow> Some x)"

text \<open>How the runtime answers \<open>container.stop\<close> and \<open>container.remove\<close>.\<close>

datatype api_answer = Done | Gone | Failed string

text \<open>
  \<open>stop_domain\<close>: \<open>Gone\<close> is the runtime's \<open>NotFound\<close>, \<open>Failed\<close> another \<open>APIError\<close>.
  A stop that succeeds leaves the container exited, a removal takes it off the list.
\<close>

definition stop_domain ::
  "container list \<Rightarrow> string \<Rightarrow> int \<Rightarrow> api_answer \<Rightarrow> api_answer \<Rightarrow> (error + bool) \<times> container list" where
  "stop_domain docker domain_id timeout stop_answer remove_answer =
     (case find_container_by_domain_id docker domain_id of
        None \<Rightarrow> (Inr False, docker)
      | Some x \<Rightarrow>
          (case stop_answer of
             Gone \<Rightarrow> (Inr False, docker)
           | Failed e \<Rightarrow>
               (Inl (DockerException (''Failed to stop domain '' @ domain_id @ '': '' @ e)), docker)
           | Done \<Rightarrow>
               (let stopped = map (\<lambda>y. if c_id y = c_id x then y\<lparr>c_status := ''exited''\<rparr> else y) docker
                in case remove_answer of
                     Done \<Rightarrow> (Inr True, filter (\<lambda>y. c_id y \<noteq> c_id x) stopped)
                   | Gone \<Rightarrow> (Inr False, stopped)
                   | Failed e \<Rightarrow>
                       (Inl (DockerException (''Failed to stop domain '' @ domain_id @ '': '' @ e)),
                        stopped))))"

section \<open>Sequences of calls\<close>

text \<open>
  The arguments of one call of \<open>publish_task\<close> on a domain (description, requirements,
  context, priority, timeout, source) with the identifier and the clock reading the
  call draws, and the message the call builds from them.
\<close>

datatype publish_call =
  PublishCall string "json list option" "dict option" string int string string string

fun call_message :: "string \<Rightarrow> publish_call \<Rightarrow> task_message" where
  "call_message domain (PublishCall description requirements context priority timeout_seconds src uuid now) =
     new_task_message uuid now domain description requirements context priority timeout_seconds src"

fun publish_tasks :: "codec \<Rightarrow> store \<Rightarrow> string \<Rightarrow> publish_call list \<Rightarrow> string list \<times> store" where
  "publish_tasks c s domain [] = ([], s)"
| "publish_tasks c s domain (PublishCall description requirements context priority timeout_seconds src uuid now # calls) =
     (let (tid, s1) = publish_task c s domain description requirements context priority timeout_seconds src uuid now;
          (tids, s2) = publish_tasks c s1 domain calls
      in (tid # tids, s2))"

fun get_next_tasks ::
  "codec \<Rightarrow> store \<Rightarrow> string \<Rightarrow> (int \<times> string) list \<Rightarrow> (error + task_message option) list \<times> store" where
  "get_next_tasks c s domain [] = ([], s)"
| "get_next_tasks c s domain ((timeout, now) # calls) =
     (let (r, s1) = get_next_task c s domain timeout now;
          (rs, s2) = get_next_tasks c s1 domain calls
      in (r # rs, s2))"

text \<open>What \<open>get_next_task\<close> returns for a text it has taken from the queue.\<close>

definition decode_task :: "codec \<Rightarrow> string \<Rightarrow> error + task_message option" where
  "decode_task c r =
     (if r = [] then Inr None
      else case from_json c r of None \<Rightarrow> Inl ValidationError | Some task \<Rightarrow> Inr (Some task))"

text \<open>
  A codec for the examples: a message is written as its identifier and read back from
  a table of messages; the empty dictionary is written as Python writes it.
\<close>

definition example_codec :: "task_message list \<Rightarrow> codec" where
  "example_codec table =
     \<lparr>to_json = task_id,
      from_json = (\<lambda>x. find (\<lambda>m. task_id m = x) table),
      json_dumps = (\<lambda>j. if j = JObj [] then ''{}'' else ''null''),
      json_loads = (\<lambda>x. if x = ''{}'' then Some (JObj []) else None)\<rparr>"

text \<open>
  Two calls on the domain \<open>backend\<close>, as the test of the order of the queue makes
  them, the messages they build, and the store after both on an empty store.
\<close>

definition task_a :: task_message where
  "task_a = new_task_message ''task-a'' ''09:00'' ''backend'' ''Task 0'' None None ''normal'' 300 ''test''"

definition task_b :: task_message where
  "task_b = new_task_message ''task-b'' ''09:01'' ''backend'' ''Task 1'' None None ''normal'' 300 ''test''"

definition call_a :: publish_call where
  "call_a = PublishCall ''Task 0'' None None ''normal'' 300 ''test'' ''task-a'' ''09:00''"

definition call_b :: publish_call where
  "call_b = PublishCall ''Task 1'' None None ''normal'' 300 ''test'' ''task-b'' ''09:01''"

definition two_published :: store where
  "two_published =
     snd (publish_tasks (example_codec [task_a, task_b]) empty_store ''backend'' [call_a, call_b])"

text \<open>
  The invariant of the two lists of a domain: no text stands twice in the pending
  list and the active list taken together, so a task is in at most one of them, once.
\<close>

definition at_most_one :: "store \<Rightarrow> string \<Rightarrow> bool" where
  "at_most_one s d = distinct (r_lists s (queue_key d) @ r_lists s (active_key d))"

section \<open>Facts about the keys and the lists\<close>

lemma pending_neq_active [simp]:
  "queue_key d \<noteq> active_key d'"
  "active_key d \<noteq> queue_key d'"
  by (simp_all add: queue_key_def active_key_def)

lemma queue_key_inj [simp]: "queue_key d = queue_key d' \<longleftrightarrow> d = d'"
  by (simp add: queue_key_def)

lemma active_key_inj [simp]: "active_key d = active_key d' \<longleftrightarrow> d = d'"
  by (simp add: active_key_def)

lemma r_lists_hset_mapping [simp]: "r_lists (hset_mapping s k m) = r_lists s"
  by (simp add: hset_mapping_def)

lemma r_lists_publish [simp]: "r_lists (publish s ch m) = r_lists s"
  by (simp add: publish_def)

lemma r_lists_publish_task:
  "r_lists (snd (publish_task c s d de rq cx pr ts sr uu nw)) =
     (r_lists s)(queue_key d :=
        to_json c (new_task_message uu nw d de rq cx pr ts sr) # r_lists s (queue_key d))"
  by (simp add: publish_task_def Let_def init_result_def lpush_def)

lemma r_lists_get_next_task:
  "r_lists (snd (get_next_task c s d timeout now)) =
     (if r_lists s (queue_key d) = [] then r_lists s
      else (r_lists s)
        (queue_key d := butlast (r_lists s (queue_key d)),
         active_key d := last (r_lists s (queue_key d)) # r_lists s (active_key d)))"
  by (simp add: get_next_task_def brpoplpush_def rpoplpush_def Let_def update_result_def
        split: option.splits prod.splits)

lemma fst_get_next_task:
  "fst (get_next_task c s d timeout now) =
     (if r_lists s (queue_key d) = [] then Inr None
      else decode_task c (last (r_lists s (queue_key d))))"
  by (simp add: get_next_task_def brpoplpush_def rpoplpush_def Let_def decode_task_def
        split: option.splits prod.splits)

lemma pending_publish_tasks:
  "r_lists (snd (publish_tasks c s d calls)) (queue_key d) =
     rev (map (\<lambda>call. to_json c (call_message d call)) calls) @ r_lists s (queue_key d)"
proof (induction calls arbitrary: s)
  case Nil
  show ?case by simp
next
  case (Cons call calls)
  obtain de rq cx pr ts sr uu nw where call: "call = PublishCall de rq cx pr ts sr uu nw"
    by (cases call)
  show ?case
    using Cons.IH [of "snd (publish_task c s d de rq cx pr ts sr uu nw)"]
    by (simp add: call split_beta Let_def r_lists_publish_task)
qed

lemma fst_get_next_tasks:
  "length calls \<le> length (r_lists s (queue_key d)) \<Longrightarrow>
   fst (get_next_tasks c s d calls) =
     map (decode_task c) (take (length calls) (rev (r_lists s (queue_key d))))"
proof (induction calls arbitrary: s)
  case Nil
  show ?case by simp
next
  case (Cons call calls)
  obtain timeout now where call: "call = (timeout, now)" by (cases call)
  let ?p = "r_lists s (queue_key d)"
  let ?s1 = "snd (get_next_task c s d timeout now)"
  from Cons.prems have ne: "?p \<noteq> []" by auto
  have p1: "r_lists ?s1 (queue_key d) = butlast ?p"
    using ne by (simp add: r_lists_get_next_task)
  have len: "length calls \<le> length (r_lists ?s1 (queue_key d))"
    using Cons.prems by (simp add: p1)
  have rest: "fst (get_next_tasks c ?s1 d calls) =
      map (decode_task c) (take (length calls) (rev (butlast ?p)))"
    using Cons.IH [OF len] by (simp add: p1)
  have split: "rev ?p = last ?p # rev (butlast ?p)"
    using ne by (metis append_butlast_last_id rev.simps(2) rev_rev_ident rev_singleton_conv rev_append append_Cons append_Nil)
  show ?case
    using ne rest by (simp add: call split_beta fst_get_next_task split)
qed


lemma remove_n_one: "remove_n (Suc 0) v xs = remove1 v xs"
  by (induction xs) auto

lemma r_lists_complete_task:
  "r_lists (complete_task c s d task) =
     (r_lists s)(active_key d := remove1 (to_json c task) (r_lists s (active_key d)))"
  by (simp add: complete_task_def lrem_def remove_n_one)

lemma r_lists_publish_result [simp]:
  "r_lists (publish_result c s tid out st err now) = r_lists s"
  by (simp add: publish_result_def Let_def)

lemma empty_lists [simp]: "r_lists empty_store k = []"
  by (simp add: empty_store_def)

lemma two_published_pending:
  "r_lists two_published (queue_key ''backend'') = [''task-b'', ''task-a'']"
  unfolding two_published_def pending_publish_tasks
  by (simp add: call_a_def call_b_def example_codec_def new_task_message_def)

lemma two_published_active:
  "r_lists two_published (active_key ''backend'') = []"
  unfolding two_published_def
  by (simp add: call_a_def call_b_def split_beta r_lists_publish_task)

lemma at_most_one_move:
  assumes "distinct (p @ a)" "p \<noteq> []"
  shows "distinct (butlast p @ last p # a)"
proof -
  from assms(2) obtain q x where p: "p = q @ [x]"
    by (metis append_butlast_last_id)
  with assms(1) show ?thesis by auto
qed

section \<open>The order of a domain's queue\<close>

text \<open>
  C1. The tasks published on a domain come back from \<open>get_next_task\<close> in the order of
  their publication. From any store, publish the calls \<open>calls\<close> on domain \<open>d\<close> in order
  and then call \<open>get_next_task\<close> once for every text that was pending before and once
  for every call: the results that follow those of the older texts are the published
  messages, in the order of the calls. The serialiser is assumed to give a non-empty
  text that the parser reads back as the message.
\<close>

theorem fifo_per_domain:
  assumes codec: "\<forall>call \<in> set calls. to_json c (call_message d call) \<noteq> []
            \<and> from_json c (to_json c (call_message d call)) = Some (call_message d call)"
      and gets: "length gets = length (r_lists s (queue_key d)) + length calls"
  shows "drop (length (r_lists s (queue_key d)))
           (fst (get_next_tasks c (snd (publish_tasks c s d calls)) d gets))
         = map (\<lambda>call. Inr (Some (call_message d call))) calls"
proof -
  let ?old = "r_lists s (queue_key d)"
  let ?texts = "map (\<lambda>call. to_json c (call_message d call)) calls"
  let ?s1 = "snd (publish_tasks c s d calls)"
  have pending: "r_lists ?s1 (queue_key d) = rev ?texts @ ?old"
    by (rule pending_publish_tasks)
  have "fst (get_next_tasks c ?s1 d gets)
          = map (decode_task c) (take (length gets) (rev (r_lists ?s1 (queue_key d))))"
    by (rule fst_get_next_tasks) (simp add: pending gets)
  also have "\<dots> = map (decode_task c) (rev ?old) @ map (decode_task c) ?texts"
    by (simp add: pending gets)
  finally have "drop (length ?old) (fst (get_next_tasks c ?s1 d gets))
          = map (decode_task c) ?texts"
    by simp
  moreover have "map (decode_task c) ?texts = map (\<lambda>call. Inr (Some (call_message d call))) calls"
    using codec by (simp add: decode_task_def)
  ultimately show ?thesis by simp
qed

text \<open>On an empty store: \<open>task_a\<close> and \<open>task_b\<close>, published in this order, come back in this order.\<close>

theorem fifo_per_domain_witness:
  "fst (get_next_tasks (example_codec [task_a, task_b])
          (snd (publish_tasks (example_codec [task_a, task_b]) empty_store ''backend'' [call_a, call_b]))
          ''backend'' [(0, ''09:02''), (0, ''09:03'')])
     = [Inr (Some task_a), Inr (Some task_b)]"
  using fifo_per_domain [of "[call_a, call_b]" "example_codec [task_a, task_b]" "''backend''"
      "[(0, ''09:02''), (0, ''09:03'')]" empty_store]
  by (simp add: example_codec_def call_a_def call_b_def task_a_def task_b_def
      new_task_message_def empty_store_def)

text \<open>
  C5, as the code has it. \<open>publish_task\<close> puts the new text at the head of the pending
  list (\<open>LPUSH\<close>), so the head is the newest and the last element the oldest;
  \<open>get_next_task\<close> takes the last element and puts it at the head of the active list
  (\<open>RPOPLPUSH\<close>).
\<close>

theorem pending_queue_layout:
  "r_lists (snd (publish_task c s d de rq cx pr ts sr uu nw)) (queue_key d)
     = to_json c (new_task_message uu nw d de rq cx pr ts sr) # r_lists s (queue_key d)
   \<and> (r_lists s (queue_key d) \<noteq> [] \<longrightarrow>
        fst (get_next_task c s d timeout now) = decode_task c (last (r_lists s (queue_key d)))
      \<and> r_lists (snd (get_next_task c s d timeout now)) (queue_key d)
          = butlast (r_lists s (queue_key d))
      \<and> r_lists (snd (get_next_task c s d timeout now)) (active_key d)
          = last (r_lists s (queue_key d)) # r_lists s (active_key d))"
  by (simp add: r_lists_publish_task r_lists_get_next_task fst_get_next_task)

theorem pending_queue_layout_witness:
  "r_lists two_published (queue_key ''backend'') \<noteq> []
   \<and> fst (get_next_task (example_codec [task_a, task_b]) two_published ''backend'' 0 ''09:02'')
       = Inr (Some task_a)
   \<and> r_lists (snd (get_next_task (example_codec [task_a, task_b]) two_published ''backend'' 0 ''09:02''))
        (queue_key ''backend'') = [''task-b'']
   \<and> r_lists (snd (get_next_task (example_codec [task_a, task_b]) two_published ''backend'' 0 ''09:02''))
        (active_key ''backend'') = [''task-a'']"
  using pending_queue_layout [of "example_codec [task_a, task_b]" two_published "''backend''"
      "''Task 2''" None None "''normal''" 300 "''test''" "''task-c''" "''09:02''" 0 "''09:02''"]
  by (simp add: two_published_pending two_published_active decode_task_def example_codec_def
      task_a_def task_b_def new_task_message_def)

text \<open>
  C5 as stated fails: after \<open>task_a\<close> and then \<open>task_b\<close> are published, the head of the
  pending list is the text of \<open>task_b\<close>, the newer one, and \<open>get_next_task\<close> returns
  \<open>task_a\<close> and leaves the head where it was.
\<close>

theorem head_is_oldest_counterexample:
  "hd (r_lists two_published (queue_key ''backend'')) = to_json (example_codec [task_a, task_b]) task_b
   \<and> hd (r_lists two_published (queue_key ''backend'')) \<noteq> to_json (example_codec [task_a, task_b]) task_a
   \<and> fst (get_next_task (example_codec [task_a, task_b]) two_published ''backend'' 0 ''09:02'')
       = Inr (Some task_a)
   \<and> r_lists (snd (get_next_task (example_codec [task_a, task_b]) two_published ''backend'' 0 ''09:02''))
        (queue_key ''backend'') = [to_json (example_codec [task_a, task_b]) task_b]"
  by (simp add: two_published_pending fst_get_next_task r_lists_get_next_task decode_task_def
      example_codec_def task_a_def task_b_def new_task_message_def)

section \<open>Facts about the registry\<close>

lemma registry_keys [simp]:
  "info_key a = info_key b \<longleftrightarrow> a = b"
  "heartbeat_key a = heartbeat_key b \<longleftrightarrow> a = b"
  "domains_key d = domains_key e \<longleftrightarrow> d = e"
  "info_key a \<noteq> heartbeat_key b" "heartbeat_key a \<noteq> info_key b"
  "info_key a \<noteq> ''agents:main''" "heartbeat_key a \<noteq> ''agents:main''"
  "''agents:main'' \<noteq> info_key a" "''agents:main'' \<noteq> heartbeat_key a"
  "domains_key d \<noteq> ''agents:all''" "domains_key d \<noteq> ''agents:domains''"
  "domains_key d \<noteq> ''agents:workers''" "domains_key d \<noteq> ''agents:main''"
  "''agents:all'' \<noteq> domains_key d" "''agents:domains'' \<noteq> domains_key d"
  "''agents:workers'' \<noteq> domains_key d" "''agents:main'' \<noteq> domains_key d"
  "info_key a \<noteq> ''agents:all''" "info_key a \<noteq> ''agents:domains''"
  "info_key a \<noteq> ''agents:workers''" "info_key a \<noteq> domains_key d"
  "heartbeat_key a \<noteq> ''agents:all''" "heartbeat_key a \<noteq> ''agents:domains''"
  "heartbeat_key a \<noteq> ''agents:workers''" "heartbeat_key a \<noteq> domains_key d"
  "''agents:all'' \<noteq> info_key a" "''agents:domains'' \<noteq> info_key a"
  "''agents:workers'' \<noteq> info_key a" "domains_key d \<noteq> info_key a"
  "''agents:all'' \<noteq> heartbeat_key a" "''agents:domains'' \<noteq> heartbeat_key a"
  "''agents:workers'' \<noteq> heartbeat_key a" "domains_key d \<noteq> heartbeat_key a"
  by (simp_all add: info_key_def heartbeat_key_def domains_key_def)

text \<open>The components of the store after each command.\<close>

lemma hset_mapping_simps [simp]:
  "r_hashes (hset_mapping s k m) = (r_hashes s)(k := fold (\<lambda>(f, v) h. h(f \<mapsto> v)) m (r_hashes s k))"
  "r_strings (hset_mapping s k m) = r_strings s"
  "r_sets (hset_mapping s k m) = r_sets s"
  "r_published (hset_mapping s k m) = r_published s"
  by (simp_all add: hset_mapping_def)

lemma hset_simps [simp]:
  "r_hashes (hset s k f v) = (r_hashes s)(k := (r_hashes s k)(f \<mapsto> v))"
  "r_strings (hset s k f v) = r_strings s"
  "r_sets (hset s k f v) = r_sets s"
  "r_lists (hset s k f v) = r_lists s"
  "r_published (hset s k f v) = r_published s"
  by (simp_all add: hset_def)

lemma sadd_simps [simp]:
  "r_hashes (sadd s k m) = r_hashes s"
  "r_strings (sadd s k m) = r_strings s"
  "r_sets (sadd s k m) = (r_sets s)(k := (if m \<in> set (r_sets s k) then r_sets s k else r_sets s k @ [m]))"
  "r_lists (sadd s k m) = r_lists s"
  "r_published (sadd s k m) = r_published s"
  by (auto simp: sadd_def)

lemma srem_simps [simp]:
  "r_hashes (srem s k m) = r_hashes s"
  "r_strings (srem s k m) = r_strings s"
  "r_sets (srem s k m) = (r_sets s)(k := removeAll m (r_sets s k))"
  "r_lists (srem s k m) = r_lists s"
  "r_published (srem s k m) = r_published s"
  by (simp_all add: srem_def)

lemma set_key_simps [simp]:
  "r_hashes (set_key s k v) = r_hashes s"
  "r_strings (set_key s k v) = (r_strings s)(k \<mapsto> (v, None))"
  "r_sets (set_key s k v) = r_sets s"
  "r_lists (set_key s k v) = r_lists s"
  "r_published (set_key s k v) = r_published s"
  by (simp_all add: set_key_def)

lemma setex_simps [simp]:
  "r_hashes (setex s k ttl v) = r_hashes s"
  "r_strings (setex s k ttl v) = (r_strings s)(k \<mapsto> (v, Some ttl))"
  "r_sets (setex s k ttl v) = r_sets s"
  "r_lists (setex s k ttl v) = r_lists s"
  "r_published (setex s k ttl v) = r_published s"
  by (simp_all add: setex_def)

lemma delete_key_simps [simp]:
  "r_hashes (delete_key s k) = (r_hashes s)(k := Map.empty)"
  "r_strings (delete_key s k) = (r_strings s)(k := None)"
  "r_sets (delete_key s k) = (r_sets s)(k := [])"
  "r_lists (delete_key s k) = (r_lists s)(k := [])"
  "r_published (delete_key s k) = r_published s"
  by (simp_all add: delete_key_def)

text \<open>The info hash of an agent after \<open>register\<close>, field by field.\<close>

lemma info_after_register:
  "r_hashes (snd (register s aid rl dt cid created now)) (info_key aid) =
     (r_hashes s (info_key aid))
       (''agent_id'' \<mapsto> aid, ''role'' \<mapsto> rl, ''status'' \<mapsto> ''active'', ''created_at'' \<mapsto> created)
     ++ (case dt of None \<Rightarrow> Map.empty | Some d \<Rightarrow> [''domain_type'' \<mapsto> d])
     ++ (case cid of None \<Rightarrow> Map.empty | Some x \<Rightarrow> [''container_id'' \<mapsto> x])"
  by (rule ext) (simp add: register_def Let_def agent_to_dict_def map_add_def split: option.splits)

lemma other_info_after_register:
  "b \<noteq> aid \<Longrightarrow>
   r_hashes (snd (register s aid rl dt cid created now)) (info_key b) = r_hashes s (info_key b)"
  by (simp add: register_def Let_def split: option.splits)

lemma get_agent_after_register:
  "get_agent (snd (register s aid rl dt cid created now)) aid t =
     Inr (Some \<lparr>agent_id = aid, role = rl,
        domain_type = (case dt of None \<Rightarrow> r_hashes s (info_key aid) ''domain_type'' | Some d \<Rightarrow> Some d),
        agent_status = ''active'',
        container_id = (case cid of None \<Rightarrow> r_hashes s (info_key aid) ''container_id'' | Some x \<Rightarrow> Some x),
        created_at = created,
        last_heartbeat = r_hashes s (info_key aid) ''last_heartbeat''\<rparr>)"
proof -
  let ?h = "r_hashes (snd (register s aid rl dt cid created now)) (info_key aid)"
  have ne: "?h \<noteq> Map.empty"
  proof
    assume "?h = Map.empty"
    then have "?h ''role'' = None" by simp
    then show False
      by (simp add: info_after_register map_add_def split: option.splits)
  qed
  show ?thesis
    using ne
    by (simp add: get_agent_def hgetall_def Let_def agent_from_dict_def info_after_register
        map_add_def split: option.splits)
qed


lemma collect_agents_member:
  "collect_agents s ids now = Inr as \<Longrightarrow> aid \<in> set ids \<Longrightarrow> get_agent s aid now = Inr (Some a)
     \<Longrightarrow> a \<in> set as"
proof (induction ids arbitrary: as)
  case Nil
  then show ?case by simp
next
  case (Cons x ids)
  then show ?case
    by (auto split: sum.splits option.splits)
qed

lemma healthy_after_register: "is_healthy (snd (register s aid rl dt cid created now)) aid"
  by (simp add: is_healthy_def exists_key_def register_def Let_def)

lemma domain_member_after_register:
  "d \<noteq> [] \<Longrightarrow>
   r_sets (snd (register s aid ''domain'' (Some d) cid created now)) (domains_key d) =
     (if aid \<in> set (r_sets s (domains_key d)) then r_sets s (domains_key d)
      else r_sets s (domains_key d) @ [aid])"
  by (simp add: register_def Let_def)

section \<open>Registration\<close>

text \<open>
  C9. \<open>register\<close> returns an agent with status \<open>active\<close>, and \<open>get_agent\<close> right after
  it reads a record with status \<open>active\<close> (and the identifier and role of the call),
  whatever the arguments and whatever the store held. A domain agent registered with a
  non-empty domain type is then a member of the set of its type and has a lease, so it
  passes the two tests of \<open>find_available_domain\<close>: the search does not answer \<open>None\<close>,
  and answers this agent when the set of its type held nobody before.
\<close>

theorem register_stamps_active:
  "agent_status (fst (register s aid rl dt cid created now)) = ''active''
   \<and> get_agent (snd (register s aid rl dt cid created now)) aid t =
       Inr (Some \<lparr>agent_id = aid, role = rl,
          domain_type = (case dt of None \<Rightarrow> r_hashes s (info_key aid) ''domain_type'' | Some d \<Rightarrow> Some d),
          agent_status = ''active'',
          container_id = (case cid of None \<Rightarrow> r_hashes s (info_key aid) ''container_id'' | Some x \<Rightarrow> Some x),
          created_at = created,
          last_heartbeat = r_hashes s (info_key aid) ''last_heartbeat''\<rparr>)
   \<and> (d \<noteq> [] \<longrightarrow>
        aid \<in> set (smembers (snd (register s aid ''domain'' (Some d) cid created now)) (domains_key d))
      \<and> is_healthy (snd (register s aid ''domain'' (Some d) cid created now)) aid
      \<and> find_available_domain (snd (register s aid ''domain'' (Some d) cid created now)) d t \<noteq> Inr None
      \<and> (r_sets s (domains_key d) = [] \<longrightarrow>
           find_available_domain (snd (register s aid ''domain'' (Some d) cid created now)) d t =
             Inr (Some \<lparr>agent_id = aid, role = ''domain'', domain_type = Some d,
                agent_status = ''active'',
                container_id = (case cid of None \<Rightarrow> r_hashes s (info_key aid) ''container_id'' | Some x \<Rightarrow> Some x),
                created_at = created,
                last_heartbeat = r_hashes s (info_key aid) ''last_heartbeat''\<rparr>)))"
proof -
  let ?s1 = "snd (register s aid ''domain'' (Some d) cid created now)"
  let ?a = "\<lparr>agent_id = aid, role = ''domain'', domain_type = Some d,
                agent_status = ''active'',
                container_id = (case cid of None \<Rightarrow> r_hashes s (info_key aid) ''container_id'' | Some x \<Rightarrow> Some x),
                created_at = created,
                last_heartbeat = r_hashes s (info_key aid) ''last_heartbeat''\<rparr>"
  have stamped: "agent_status (fst (register s aid rl dt cid created now)) = ''active''"
    by (simp add: register_def Let_def)
  have agent: "get_agent ?s1 aid t = Inr (Some ?a)"
    by (simp add: get_agent_after_register)
  have healthy: "is_healthy ?s1 aid"
    by (rule healthy_after_register)
  have member: "aid \<in> set (smembers ?s1 (domains_key d))" if "d \<noteq> []"
    using that by (simp add: smembers_def domain_member_after_register)
  have found: "find_available_domain ?s1 d t \<noteq> Inr None" if "d \<noteq> []"
  proof (cases "get_domain_orchestrators ?s1 (Some d) t")
    case (Inl e)
    then show ?thesis by (simp add: find_available_domain_def)
  next
    case (Inr as)
    then have "collect_agents ?s1 (smembers ?s1 (domains_key d)) t = Inr as"
      using that by (simp add: get_domain_orchestrators_def)
    then have "?a \<in> set as"
      using member [OF that] agent by (rule collect_agents_member)
    then have "filter (\<lambda>x. agent_status x = ''active'' \<and> is_healthy ?s1 (agent_id x)) as \<noteq> []"
      using healthy by (auto simp: filter_empty_conv intro!: bexI [of _ ?a])
    then show ?thesis
      using Inr by (simp add: find_available_domain_def split: list.splits)
  qed
  have alone: "find_available_domain ?s1 d t = Inr (Some ?a)"
    if "d \<noteq> []" "r_sets s (domains_key d) = []"
    using that agent healthy
    by (simp add: find_available_domain_def get_domain_orchestrators_def smembers_def
        domain_member_after_register)
  show ?thesis
    using stamped member healthy found alone
    by (simp add: get_agent_after_register)
qed

theorem register_stamps_active_witness:
  "find_available_domain
     (snd (register empty_store ''backend-1'' ''domain'' (Some ''backend'') None ''09:00'' ''09:00''))
     ''backend'' ''09:01''
   = Inr (Some \<lparr>agent_id = ''backend-1'', role = ''domain'', domain_type = Some ''backend'',
        agent_status = ''active'', container_id = None, created_at = ''09:00'',
        last_heartbeat = None\<rparr>)"
  using register_stamps_active [of empty_store "''backend-1''" "''domain''" "Some ''backend''"
      None "''09:00''" "''09:00''" "''09:01''" "''backend''"]
  by (simp add: empty_store_def)

section \<open>Removal\<close>

lemma get_agent_other_after_register:
  "b \<noteq> aid \<Longrightarrow> get_agent (snd (register s aid rl dt cid created now)) b t = get_agent s b t"
  by (simp add: get_agent_def hgetall_def other_info_after_register)

lemma deregister_found:
  assumes "get_agent s aid t = Inr (Some info)"
  shows "fst (deregister s aid t) = Inr True"
    and "r_hashes (snd (deregister s aid t)) (info_key aid) = Map.empty"
    and "r_strings (snd (deregister s aid t)) (heartbeat_key aid) = None"
    and "aid \<notin> set (r_sets (snd (deregister s aid t)) ''agents:all'')"
    and "role info = ''main'' \<Longrightarrow> r_strings (snd (deregister s aid t)) ''agents:main'' = None"
    and "b \<noteq> aid \<Longrightarrow> r_hashes (snd (deregister s aid t)) (info_key b) = r_hashes s (info_key b)"
    and "b \<noteq> aid \<Longrightarrow> r_strings (snd (deregister s aid t)) (heartbeat_key b) = r_strings s (heartbeat_key b)"
    and "b \<noteq> aid \<Longrightarrow> b \<in> set (r_sets s ''agents:all'')
           \<Longrightarrow> b \<in> set (r_sets (snd (deregister s aid t)) ''agents:all'')"
  using assms by (simp_all add: deregister_def Let_def split: option.splits)

lemma deregister_missing:
  "get_agent s aid t = Inr None \<Longrightarrow> deregister s aid t = (Inr False, s)"
  by (simp add: deregister_def)

lemma get_agent_missing:
  "r_hashes s (info_key aid) = Map.empty \<Longrightarrow> get_agent s aid t = Inr None"
  by (simp add: get_agent_def hgetall_def)


lemma main_after_register:
  "r_strings (snd (register s aid ''main'' dt cid created now)) ''agents:main'' = Some (aid, None)"
  by (simp add: register_def Let_def)

lemma all_after_register:
  "aid \<in> set (r_sets (snd (register s aid rl dt cid created now)) ''agents:all'')"
  by (simp add: register_def Let_def split: option.splits)

text \<open>
  C10. \<open>deregister\<close> of an agent whose stored role is \<open>main\<close> deletes the key
  \<open>agents:main\<close> without looking at what it holds. When \<open>a\<close> registers as main, then
  another agent \<open>b\<close> registers as main, the key holds \<open>b\<close>; after \<open>deregister a\<close> the
  key is gone and \<open>get_main_orchestrator\<close> answers \<open>None\<close>, although \<open>b\<close> keeps its
  record, its membership of \<open>agents:all\<close> and its lease.
\<close>

theorem deregister_main_deletes_singleton:
  "(get_agent s0 aid t = Inr (Some info) \<and> role info = ''main'' \<longrightarrow>
      fst (deregister s0 aid t) = Inr True
    \<and> get_key (snd (deregister s0 aid t)) ''agents:main'' = None
    \<and> get_main_orchestrator (snd (deregister s0 aid t)) t' = Inr None)
   \<and> (a \<noteq> b \<longrightarrow>
        (let s1 = snd (register s a ''main'' dta ca c1 n1);
             s2 = snd (register s1 b ''main'' dtb cb c2 n2);
             s3 = snd (deregister s2 a t)
         in get_key s2 ''agents:main'' = Some b
          \<and> fst (deregister s2 a t) = Inr True
          \<and> get_main_orchestrator s3 t' = Inr None
          \<and> get_agent s3 b t' = get_agent s2 b t'
          \<and> (\<exists>i. get_agent s3 b t' = Inr (Some i) \<and> role i = ''main'')
          \<and> b \<in> set (smembers s3 ''agents:all'')
          \<and> is_healthy s3 b))"
proof -
  have general: "fst (deregister s0 aid t) = Inr True
      \<and> get_key (snd (deregister s0 aid t)) ''agents:main'' = None
      \<and> get_main_orchestrator (snd (deregister s0 aid t)) t' = Inr None"
    if "get_agent s0 aid t = Inr (Some info)" "role info = ''main''"
    using deregister_found(1,5) [OF that(1)] that(2)
    by (simp add: get_key_def get_main_orchestrator_def)
  have scenario: "get_key s2 ''agents:main'' = Some b
          \<and> fst (deregister s2 a t) = Inr True
          \<and> get_main_orchestrator s3 t' = Inr None
          \<and> get_agent s3 b t' = get_agent s2 b t'
          \<and> (\<exists>i. get_agent s3 b t' = Inr (Some i) \<and> role i = ''main'')
          \<and> b \<in> set (smembers s3 ''agents:all'')
          \<and> is_healthy s3 b"
    if ab: "a \<noteq> b"
      and s1: "s1 = snd (register s a ''main'' dta ca c1 n1)"
      and s2: "s2 = snd (register s1 b ''main'' dtb cb c2 n2)"
      and s3: "s3 = snd (deregister s2 a t)"
    for s1 s2 s3
  proof -
    have main2: "get_key s2 ''agents:main'' = Some b"
      by (simp add: s2 get_key_def main_after_register)
    obtain ia where ia: "get_agent s2 a t = Inr (Some ia)" "role ia = ''main''"
      using ab by (simp add: s2 s1 get_agent_other_after_register get_agent_after_register)
    have gone: "r_strings s3 ''agents:main'' = None"
      using deregister_found(5) [OF ia(1) ia(2)] by (simp add: s3)
    have same: "r_hashes s3 (info_key b) = r_hashes s2 (info_key b)"
      using deregister_found(6) [OF ia(1), of b] ab by (simp add: s3)
    have agent: "get_agent s3 b t' = get_agent s2 b t'"
      by (simp add: get_agent_def hgetall_def same)
    have role_b: "\<exists>i. get_agent s2 b t' = Inr (Some i) \<and> role i = ''main''"
      by (simp add: s2 get_agent_after_register)
    have member: "b \<in> set (smembers s3 ''agents:all'')"
      using deregister_found(8) [OF ia(1), of b] ab
      by (simp add: s3 s2 smembers_def all_after_register)
    have lease: "r_strings s3 (heartbeat_key b) = r_strings s2 (heartbeat_key b)"
      using deregister_found(7) [OF ia(1), of b] ab by (simp add: s3)
    have healthy: "is_healthy s3 b"
      using healthy_after_register [of s1 b "''main''" dtb cb c2 n2]
      by (simp add: is_healthy_def exists_key_def lease s2 register_def Let_def)
    show ?thesis
      using main2 deregister_found(1) [OF ia(1)] gone agent role_b member healthy
      by (simp add: s3 get_main_orchestrator_def get_key_def)
  qed
  show ?thesis
    using general scenario [OF _ refl refl refl] unfolding Let_def by blast
qed

theorem deregister_main_deletes_singleton_witness:
  "get_agent (snd (register empty_store ''main-a'' ''main'' None None ''09:00'' ''09:00''))
       ''main-a'' ''09:02''
     = Inr (Some \<lparr>agent_id = ''main-a'', role = ''main'', domain_type = None,
          agent_status = ''active'', container_id = None, created_at = ''09:00'',
          last_heartbeat = None\<rparr>)
   \<and> ''main-a'' \<noteq> ''main-b''
   \<and> get_main_orchestrator
        (snd (deregister
           (snd (register (snd (register empty_store ''main-a'' ''main'' None None ''09:00'' ''09:00''))
              ''main-b'' ''main'' None None ''09:01'' ''09:01''))
           ''main-a'' ''09:02''))
        ''09:03'' = Inr None
   \<and> get_agent
        (snd (deregister
           (snd (register (snd (register empty_store ''main-a'' ''main'' None None ''09:00'' ''09:00''))
              ''main-b'' ''main'' None None ''09:01'' ''09:01''))
           ''main-a'' ''09:02''))
        ''main-b'' ''09:03''
     = Inr (Some \<lparr>agent_id = ''main-b'', role = ''main'', domain_type = None,
          agent_status = ''active'', container_id = None, created_at = ''09:01'',
          last_heartbeat = None\<rparr>)"
  using deregister_main_deletes_singleton [of
      "snd (register empty_store ''main-a'' ''main'' None None ''09:00'' ''09:00'')" "''main-a''"
      "''09:02''"
      "\<lparr>agent_id = ''main-a'', role = ''main'', domain_type = None,
          agent_status = ''active'', container_id = None, created_at = ''09:00'',
          last_heartbeat = None\<rparr>"
      "''09:03''" "''main-a''" "''main-b''" empty_store None None "''09:00''" "''09:00''"
      None None "''09:01''" "''09:01''"]
  by (simp add: get_agent_after_register other_info_after_register Let_def empty_store_def)


section \<open>What is not found\<close>

lemma deregister_twice:
  assumes "get_agent s aid t = Inr (Some info)"
  shows "deregister (snd (deregister s aid t)) aid t' = (Inr False, snd (deregister s aid t))"
  using deregister_found(2) [OF assms]
  by (simp add: deregister_missing get_agent_missing)

lemma stop_domain_missing:
  assumes "\<forall>x \<in> set docker. map_of (c_labels x) DOMAIN_ID_LABEL \<noteq> Some domain_id"
  shows "stop_domain docker domain_id timeout sa ra = (Inr False, docker)"
proof -
  have "containers_list docker DOMAIN_ID_LABEL domain_id = []"
    using assms by (simp add: containers_list_def filter_empty_conv)
  then show ?thesis
    by (simp add: stop_domain_def find_container_by_domain_id_def)
qed

lemma get_next_task_empty:
  "r_lists s (queue_key d) = [] \<Longrightarrow> get_next_task c s d tmo now = (Inr None, s)"
  by (simp add: get_next_task_def brpoplpush_def rpoplpush_def)

text \<open>
  C7, as the code has it. What is not found is answered, not raised. \<open>deregister\<close> of
  an agent whose info hash holds no field returns \<open>False\<close> and leaves the store as it
  is; after a \<open>deregister\<close> that found the agent, a second one returns \<open>False\<close> and
  changes nothing. \<open>stop_domain\<close> returns \<open>False\<close> when no container carries the domain
  id as its label. \<open>get_next_task\<close> without timeout on an empty pending list returns
  \<open>None\<close> and leaves the store as it is.
\<close>

theorem not_found_is_sentinel:
  "(r_hashes s1 (info_key aid) = Map.empty \<longrightarrow> deregister s1 aid t = (Inr False, s1))
   \<and> (get_agent s2 aid t = Inr (Some info) \<longrightarrow>
        fst (deregister s2 aid t) = Inr True
      \<and> deregister (snd (deregister s2 aid t)) aid t' = (Inr False, snd (deregister s2 aid t)))
   \<and> ((\<forall>x \<in> set docker. map_of (c_labels x) DOMAIN_ID_LABEL \<noteq> Some domain_id) \<longrightarrow>
        stop_domain docker domain_id timeout stop_answer remove_answer = (Inr False, docker))
   \<and> (r_lists s3 (queue_key d) = [] \<longrightarrow> get_next_task c s3 d 0 now = (Inr None, s3))"
  using deregister_missing [of s1 aid t] get_agent_missing [of s1 aid t]
    deregister_found(1) [of s2 aid t info]
    deregister_twice [of s2 aid t info t']
    stop_domain_missing [of docker domain_id timeout stop_answer remove_answer]
    get_next_task_empty [of s3 d c 0 now]
  by blast

text \<open>A registered worker, and a container of another domain.\<close>

definition worker_registered :: store where
  "worker_registered = snd (register empty_store ''worker-1'' ''worker'' None None ''09:00'' ''09:00'')"

definition other_container :: container where
  "other_container =
     \<lparr>c_id = ''container123'', c_name = ''domain-backend-0123abcd'',
      c_labels = [(DOMAIN_LABEL, ''backend''), (DOMAIN_ID_LABEL, ''backend-0123abcd''),
                  (LABEL_PREFIX @ ''.managed'', ''true'')],
      c_status = ''running''\<rparr>"

theorem not_found_is_sentinel_witness:
  "r_hashes empty_store (info_key ''nonexistent-agent'') = Map.empty
   \<and> deregister empty_store ''nonexistent-agent'' ''09:00'' = (Inr False, empty_store)
   \<and> fst (deregister worker_registered ''worker-1'' ''09:01'') = Inr True
   \<and> deregister (snd (deregister worker_registered ''worker-1'' ''09:01'')) ''worker-1'' ''09:02''
       = (Inr False, snd (deregister worker_registered ''worker-1'' ''09:01''))
   \<and> stop_domain [other_container] ''nonexistent-123'' 10 Done Done = (Inr False, [other_container])
   \<and> get_next_task (example_codec []) empty_store ''test-domain'' 0 ''09:00'' = (Inr None, empty_store)"
proof -
  have unknown: "r_hashes empty_store (info_key ''nonexistent-agent'') = Map.empty"
    by (simp add: empty_store_def)
  have known: "get_agent worker_registered ''worker-1'' ''09:01''
      = Inr (Some \<lparr>agent_id = ''worker-1'', role = ''worker'', domain_type = None,
          agent_status = ''active'', container_id = None, created_at = ''09:00'',
          last_heartbeat = None\<rparr>)"
    by (simp add: worker_registered_def get_agent_after_register empty_store_def)
  have no_match: "\<forall>x \<in> set [other_container].
      map_of (c_labels x) DOMAIN_ID_LABEL \<noteq> Some ''nonexistent-123''"
    by (simp add: other_container_def DOMAIN_ID_LABEL_def DOMAIN_LABEL_def LABEL_PREFIX_def)
  have empty: "r_lists empty_store (queue_key ''test-domain'') = []"
    by simp
  show ?thesis
    using unknown known no_match empty
      not_found_is_sentinel [of empty_store "''nonexistent-agent''" "''09:00''"]
      not_found_is_sentinel [of _ "''worker-1''" "''09:01''" worker_registered _ "''09:02''"
        "[other_container]" "''nonexistent-123''" 10 Done Done empty_store "''test-domain''"
        "example_codec []" "''09:00''"]
    by simp
qed

text \<open>
  C7 as stated fails for an agent that was never registered and is in no set, but has
  sent a heartbeat: the heartbeat has written \<open>last_heartbeat\<close> into its info hash, and
  \<open>deregister\<close> raises the validation error that \<open>get_agent\<close> raises on such a hash.
\<close>

definition ghost_heartbeat :: store where
  "ghost_heartbeat = snd (heartbeat empty_store ''ghost'' ''09:00'')"

theorem deregister_unknown_raises_counterexample:
  "deregister ghost_heartbeat ''ghost'' ''09:01'' = (Inl ValidationError, ghost_heartbeat)
   \<and> r_sets ghost_heartbeat = (\<lambda>k. [])
   \<and> r_hashes ghost_heartbeat (info_key ''ghost'') = [''last_heartbeat'' \<mapsto> ''09:00'']"
proof -
  have h: "r_hashes ghost_heartbeat (info_key ''ghost'') = [''last_heartbeat'' \<mapsto> ''09:00'']"
    by (simp add: ghost_heartbeat_def heartbeat_def Let_def empty_store_def)
  have "get_agent ghost_heartbeat ''ghost'' ''09:01'' = Inl ValidationError"
    by (simp add: get_agent_def hgetall_def h agent_from_dict_def)
  then have "deregister ghost_heartbeat ''ghost'' ''09:01'' = (Inl ValidationError, ghost_heartbeat)"
    by (simp add: deregister_def)
  moreover have "r_sets ghost_heartbeat = (\<lambda>k. [])"
    by (simp add: ghost_heartbeat_def heartbeat_def Let_def empty_store_def)
  ultimately show ?thesis
    using h by simp
qed

section \<open>Heartbeat after removal\<close>

lemma healthy_after_heartbeat: "is_healthy (snd (heartbeat s aid t)) aid"
  by (simp add: heartbeat_def is_healthy_def exists_key_def Let_def)

lemma info_after_heartbeat:
  "r_hashes (snd (heartbeat s aid t)) (info_key aid) = (r_hashes s (info_key aid))(''last_heartbeat'' \<mapsto> t)"
  by (simp add: heartbeat_def Let_def)

lemma deregister_true:
  "fst (deregister s aid t) = Inr True \<Longrightarrow> \<exists>info. get_agent s aid t = Inr (Some info)"
  by (simp add: deregister_def split: sum.splits option.splits)

text \<open>
  C4, as the code has it. After a \<open>deregister\<close> that removed the agent, \<open>heartbeat\<close>
  returns \<open>True\<close>, writes the lease anew with the full time to live, so that
  \<open>is_healthy\<close> holds, and writes \<open>last_heartbeat\<close> into an info hash that holds nothing
  else. It touches no set: the agent stays out of \<open>agents:all\<close>.
\<close>

theorem heartbeat_after_deregister:
  "fst (deregister s aid t0) = Inr True \<longrightarrow>
     (let s1 = snd (deregister s aid t0);
          s2 = snd (heartbeat s1 aid t1)
      in fst (heartbeat s1 aid t1) = True
       \<and> r_strings s2 (heartbeat_key aid) = Some (t1, Some HEARTBEAT_TTL)
       \<and> is_healthy s2 aid
       \<and> r_hashes s2 (info_key aid) = [''last_heartbeat'' \<mapsto> t1]
       \<and> r_sets s2 = r_sets s1
       \<and> aid \<notin> set (smembers s2 ''agents:all''))"
proof
  assume "fst (deregister s aid t0) = Inr True"
  then obtain info where info: "get_agent s aid t0 = Inr (Some info)"
    using deregister_true by blast
  let ?s1 = "snd (deregister s aid t0)"
  have sets: "r_sets (snd (heartbeat ?s1 aid t1)) = r_sets ?s1"
    by (simp add: heartbeat_def Let_def)
  have "r_hashes (snd (heartbeat ?s1 aid t1)) (info_key aid) = [''last_heartbeat'' \<mapsto> t1]"
    using deregister_found(2) [OF info] by (simp add: info_after_heartbeat)
  moreover have "r_strings (snd (heartbeat ?s1 aid t1)) (heartbeat_key aid) = Some (t1, Some HEARTBEAT_TTL)"
    by (simp add: heartbeat_def Let_def)
  moreover have "aid \<notin> set (smembers (snd (heartbeat ?s1 aid t1)) ''agents:all'')"
    using deregister_found(4) [OF info] by (simp add: smembers_def sets)
  ultimately show "let s1 = snd (deregister s aid t0);
          s2 = snd (heartbeat s1 aid t1)
      in fst (heartbeat s1 aid t1) = True
       \<and> r_strings s2 (heartbeat_key aid) = Some (t1, Some HEARTBEAT_TTL)
       \<and> is_healthy s2 aid
       \<and> r_hashes s2 (info_key aid) = [''last_heartbeat'' \<mapsto> t1]
       \<and> r_sets s2 = r_sets s1
       \<and> aid \<notin> set (smembers s2 ''agents:all'')"
    using sets healthy_after_heartbeat [of ?s1 aid t1]
    by (simp add: Let_def heartbeat_def)
qed

definition worker_gone :: store where
  "worker_gone = snd (deregister worker_registered ''worker-1'' ''09:01'')"

theorem heartbeat_after_deregister_witness:
  "fst (deregister worker_registered ''worker-1'' ''09:01'') = Inr True
   \<and> fst (heartbeat worker_gone ''worker-1'' ''09:02'') = True
   \<and> is_healthy (snd (heartbeat worker_gone ''worker-1'' ''09:02'')) ''worker-1''
   \<and> r_hashes (snd (heartbeat worker_gone ''worker-1'' ''09:02'')) (info_key ''worker-1'')
        = [''last_heartbeat'' \<mapsto> ''09:02'']
   \<and> ''worker-1'' \<notin> set (smembers (snd (heartbeat worker_gone ''worker-1'' ''09:02'')) ''agents:all'')"
proof -
  have known: "get_agent worker_registered ''worker-1'' ''09:01''
      = Inr (Some \<lparr>agent_id = ''worker-1'', role = ''worker'', domain_type = None,
          agent_status = ''active'', container_id = None, created_at = ''09:00'',
          last_heartbeat = None\<rparr>)"
    by (simp add: worker_registered_def get_agent_after_register empty_store_def)
  have removed: "fst (deregister worker_registered ''worker-1'' ''09:01'') = Inr True"
    using deregister_found(1) [OF known] .
  show ?thesis
    using removed heartbeat_after_deregister [of worker_registered "''worker-1''" "''09:01''" "''09:02''"]
    by (simp add: worker_gone_def Let_def)
qed

text \<open>
  C4 as stated fails: after register, deregister and heartbeat of \<open>worker-1\<close> the agent
  is healthy again, and \<open>get_agent\<close> finds a hash without \<open>agent_id\<close> and \<open>role\<close> and
  raises the validation error.
\<close>

theorem heartbeat_does_not_resurrect_counterexample:
  "is_healthy (snd (heartbeat worker_gone ''worker-1'' ''09:02'')) ''worker-1''
   \<and> get_agent (snd (heartbeat worker_gone ''worker-1'' ''09:02'')) ''worker-1'' ''09:03''
       = Inl ValidationError"
proof -
  have known: "get_agent worker_registered ''worker-1'' ''09:01''
      = Inr (Some \<lparr>agent_id = ''worker-1'', role = ''worker'', domain_type = None,
          agent_status = ''active'', container_id = None, created_at = ''09:00'',
          last_heartbeat = None\<rparr>)"
    by (simp add: worker_registered_def get_agent_after_register empty_store_def)
  have "r_hashes (snd (heartbeat worker_gone ''worker-1'' ''09:02'')) (info_key ''worker-1'')
        = [''last_heartbeat'' \<mapsto> ''09:02'']"
    using deregister_found(2) [OF known] by (simp add: info_after_heartbeat worker_gone_def)
  then have "get_agent (snd (heartbeat worker_gone ''worker-1'' ''09:02'')) ''worker-1'' ''09:03''
       = Inl ValidationError"
    by (simp add: get_agent_def hgetall_def agent_from_dict_def)
  then show ?thesis
    by (simp add: healthy_after_heartbeat)
qed

section \<open>Registering again\<close>

lemma register_frame [simp]:
  "r_lists (snd (register s aid rl dt cid created now)) = r_lists s"
  "r_published (snd (register s aid rl dt cid created now)) = r_published s"
  by (simp_all add: register_def Let_def split: option.splits)

lemma strings_after_register:
  "r_strings (snd (register s aid rl dt cid created now)) =
     (if rl = ''main'' then (r_strings s)(''agents:main'' \<mapsto> (aid, None)) else r_strings s)
       (heartbeat_key aid \<mapsto> (now, Some HEARTBEAT_TTL))"
  by (simp add: register_def Let_def split: option.splits)

text \<open>
  The state of the registry for one agent: its info hash, the sets it is a member of,
  its lease, and whether \<open>agents:main\<close> names it. A registry has never seen an agent
  when it holds none of these for it (a lease apart, which \<open>register\<close> overwrites).
\<close>

definition never_seen :: "store \<Rightarrow> string \<Rightarrow> bool" where
  "never_seen s aid =
     (r_hashes s (info_key aid) = Map.empty
      \<and> (\<forall>k. aid \<notin> set (r_sets s k))
      \<and> get_key s ''agents:main'' \<noteq> Some aid)"

definition same_agent_state :: "store \<Rightarrow> store \<Rightarrow> string \<Rightarrow> bool" where
  "same_agent_state s t aid =
     (r_hashes s (info_key aid) = r_hashes t (info_key aid)
      \<and> (\<forall>k. aid \<in> set (r_sets s k) \<longleftrightarrow> aid \<in> set (r_sets t k))
      \<and> r_strings s (heartbeat_key aid) = r_strings t (heartbeat_key aid)
      \<and> (get_key s ''agents:main'' = Some aid \<longleftrightarrow> get_key t ''agents:main'' = Some aid))"

text \<open>
  What one call of \<open>register\<close> writes: the fields of the hash (the two optional ones
  only when they are given) and the sets the agent joins.
\<close>

definition written_fields :: "string option \<Rightarrow> string option \<Rightarrow> string set" where
  "written_fields dt cid =
     {''agent_id'', ''role'', ''status'', ''created_at''}
     \<union> (case dt of None \<Rightarrow> {} | Some d \<Rightarrow> {''domain_type''})
     \<union> (case cid of None \<Rightarrow> {} | Some x \<Rightarrow> {''container_id''})"

definition joined_sets :: "string \<Rightarrow> string option \<Rightarrow> string set" where
  "joined_sets rl dt =
     {''agents:all''}
     \<union> (if rl = ''domain'' then
          {''agents:domains''}
          \<union> (case dt of None \<Rightarrow> {} | Some d \<Rightarrow> if d = [] then {} else {domains_key d})
        else if rl = ''worker'' then {''agents:workers''}
        else {})"

lemma map_add_absorb: "(h ++ a = a) \<longleftrightarrow> dom h \<subseteq> dom a"
proof
  assume eq: "h ++ a = a"
  show "dom h \<subseteq> dom a"
  proof
    fix x
    assume "x \<in> dom h"
    then obtain y where y: "h x = Some y" by auto
    show "x \<in> dom a"
    proof (rule ccontr)
      assume "x \<notin> dom a"
      then have none: "a x = None" by auto
      then have "(h ++ a) x = Some y" using y by (simp add: map_add_def)
      then show False using eq none by simp
    qed
  qed
next
  assume "dom h \<subseteq> dom a"
  then show "h ++ a = a"
    by (auto simp: map_add_def fun_eq_iff split: option.splits)
qed

lemma info_written:
  "r_hashes (snd (register s aid rl dt cid created now)) (info_key aid)
     = r_hashes s (info_key aid)
       ++ ([''agent_id'' \<mapsto> aid, ''role'' \<mapsto> rl, ''status'' \<mapsto> ''active'', ''created_at'' \<mapsto> created]
           ++ (case dt of None \<Rightarrow> Map.empty | Some d \<Rightarrow> [''domain_type'' \<mapsto> d])
           ++ (case cid of None \<Rightarrow> Map.empty | Some x \<Rightarrow> [''container_id'' \<mapsto> x]))"
  unfolding info_after_register by simp

lemma dom_written:
  "dom ([''agent_id'' \<mapsto> aid, ''role'' \<mapsto> rl, ''status'' \<mapsto> ''active'', ''created_at'' \<mapsto> created]
           ++ (case dt of None \<Rightarrow> Map.empty | Some d \<Rightarrow> [''domain_type'' \<mapsto> d])
           ++ (case cid of None \<Rightarrow> Map.empty | Some x \<Rightarrow> [''container_id'' \<mapsto> x]))
     = written_fields dt cid"
  by (cases dt; cases cid) (auto simp: written_fields_def)

lemma member_after_register:
  "aid \<in> set (r_sets (snd (register s aid rl dt cid created now)) k)
     \<longleftrightarrow> aid \<in> set (r_sets s k) \<or> k \<in> joined_sets rl dt"
proof -
  have add: "aid \<in> set (r_sets (sadd p key aid) k) \<longleftrightarrow> aid \<in> set (r_sets p k) \<or> k = key" for p key
    by simp
  show ?thesis
    unfolding register_def Let_def snd_conv joined_sets_def
    by (cases "rl = ''main''"; cases "rl = ''domain''"; cases "rl = ''worker''"; cases dt)
      (auto simp: add simp del: sadd_simps)
qed

lemma main_after_any_register:
  "get_key (snd (register s aid rl dt cid created now)) ''agents:main''
     = (if rl = ''main'' then Some aid else get_key s ''agents:main'')"
  by (simp add: get_key_def strings_after_register)

lemma lease_after_register:
  "r_strings (snd (register s aid rl dt cid created now)) (heartbeat_key aid)
     = Some (now, Some HEARTBEAT_TTL)"
  by (simp add: strings_after_register)


text \<open>
  A domain orchestrator registered without domain type and container, then again with
  both: its state is that of the second call alone.
\<close>

definition domain_untyped :: store where
  "domain_untyped = snd (register empty_store ''backend-1'' ''domain'' None None ''09:00'' ''09:00'')"


text \<open>
  An agent registered as a domain orchestrator and then as a worker, and the same
  agent registered as a worker only.
\<close>

definition domain_then_worker :: store where
  "domain_then_worker =
     snd (register
       (snd (register empty_store ''agent-1'' ''domain'' (Some ''backend'') (Some ''container-123'')
               ''09:00'' ''09:00''))
       ''agent-1'' ''worker'' None None ''09:05'' ''09:05'')"

definition worker_only :: store where
  "worker_only = snd (register empty_store ''agent-1'' ''worker'' None None ''09:05'' ''09:05'')"

lemma domains_after_register:
  "r_sets (snd (register s aid rl dt cid created now)) ''agents:domains'' =
     (if rl = ''domain'' \<and> aid \<notin> set (r_sets s ''agents:domains'')
      then r_sets s ''agents:domains'' @ [aid] else r_sets s ''agents:domains'')"
  by (simp add: register_def Let_def split: option.splits)

lemma typed_domains_after_register:
  "r_sets (snd (register s aid rl dt cid created now)) (domains_key d) =
     (if rl = ''domain'' \<and> dt = Some d \<and> d \<noteq> [] \<and> aid \<notin> set (r_sets s (domains_key d))
      then r_sets s (domains_key d) @ [aid] else r_sets s (domains_key d))"
  by (auto simp: register_def Let_def split: option.splits)


section \<open>Results\<close>

text \<open>The result hash after \<open>publish_result\<close>.\<close>

lemma result_after_publish_result:
  "r_hashes (publish_result c s tid out st err now) (result_key tid) =
     (r_hashes s (result_key tid))
       (''status'' \<mapsto> st, ''output'' \<mapsto> json_dumps c (JObj out), ''completed_at'' \<mapsto> now)
     ++ (case err of None \<Rightarrow> Map.empty
         | Some e \<Rightarrow> if e = [] then Map.empty else [''error'' \<mapsto> e])"
  by (simp add: publish_result_def publish_def Let_def hset_mapping_def split: option.splits)

lemma optional_str [simp]: "optional_field as_str (map_option PStr v) = Inr v"
  by (cases v) (simp_all add: optional_field_def)

lemma optional_given [simp]:
  "optional_field as_dict (Some (PJson (JObj d))) = Inr (Some d)"
  "optional_field as_str (Some (PStr x)) = Inr (Some x)"
  "optional_field as None = Inr None"
  by (simp_all add: optional_field_def)

lemma defaulted_str [simp]:
  "defaulted_field as_str dflt (Some (PStr x)) = Inr x"
  "defaulted_field as_str dflt None = Inr dflt"
  by (simp_all add: defaulted_field_def)

lemma get_result_after_publish_result:
  assumes tid: "r_hashes s (result_key tid) ''task_id'' = Some t"
    and dumped: "json_dumps c (JObj out) \<noteq> []"
    and loads: "json_loads c (json_dumps c (JObj out)) = Some (JObj out)"
  shows "get_result c (publish_result c s tid out st err now) tid =
     Inr (Some \<lparr>result_task_id = t, status = st, output_dict = Some out,
        error = (case err of None \<Rightarrow> r_hashes s (result_key tid) ''error''
                 | Some e \<Rightarrow> if e = [] then r_hashes s (result_key tid) ''error'' else Some e),
        started_at = r_hashes s (result_key tid) ''started_at'',
        completed_at = Some now\<rparr>)"
proof -
  let ?h = "r_hashes (publish_result c s tid out st err now) (result_key tid)"
  have fields: "?h ''task_id'' = Some t" "?h ''status'' = Some st"
    "?h ''output'' = Some (json_dumps c (JObj out))" "?h ''completed_at'' = Some now"
    "?h ''started_at'' = r_hashes s (result_key tid) ''started_at''"
    "?h ''error'' = (case err of None \<Rightarrow> r_hashes s (result_key tid) ''error''
                 | Some e \<Rightarrow> if e = [] then r_hashes s (result_key tid) ''error'' else Some e)"
    using tid by (simp_all add: result_after_publish_result map_add_def split: option.splits)
  have ne: "?h \<noteq> Map.empty"
    using fields(1) by auto
  show ?thesis
    using ne dumped loads
    by (simp add: get_result_def hgetall_def Let_def task_result_from_dict_def fields)
qed


text \<open>The store after one task has been published on an empty store.\<close>

definition task_published :: store where
  "task_published =
     snd (publish_task (example_codec []) empty_store ''test-domain'' ''Test'' None None ''normal''
            300 ''test'' ''task-1'' ''09:00'')"

lemma task_published_result:
  "r_hashes task_published (result_key ''task-1'') = [''task_id'' \<mapsto> ''task-1'', ''status'' \<mapsto> ''pending'']"
  by (simp add: task_published_def publish_task_def Let_def init_result_def publish_def lpush_def
      new_task_message_def empty_store_def)



section \<open>Waiting for a container\<close>

text \<open>The clock at the test of round \<open>i\<close> of the wait.\<close>

fun time_at :: "runtime \<Rightarrow> nat \<Rightarrow> int" where
  "time_at rt 0 = rt_clock rt"
| "time_at rt (Suc i) = time_at rt i + int (rt_latency rt i) + 500"

text \<open>An answer that lets the wait go on: a container that is neither running nor ended.\<close>

fun still_starting :: "get_answer \<Rightarrow> bool" where
  "still_starting (Found st lines) = (st \<noteq> ''running'' \<and> st \<noteq> ''exited'' \<and> st \<noteq> ''dead'')"
| "still_starting _ = False"

definition is_hex_digit :: "char \<Rightarrow> bool" where
  "is_hex_digit ch = (ch \<in> set ''0123456789abcdef'')"

text \<open>The pattern \<open>{domain_type}-[0-9a-f]{8}\<close>.\<close>

definition matches_domain_id :: "string \<Rightarrow> string \<Rightarrow> bool" where
  "matches_domain_id dt x =
     (take (length dt + 1) x = dt @ ''-''
      \<and> length (drop (length dt + 1) x) = 8
      \<and> list_all is_hex_digit (drop (length dt + 1) x))"

text \<open>What \<open>uuid.uuid4().hex\<close> is: 32 lower-case hexadecimal digits.\<close>

definition is_uuid_hex :: "string \<Rightarrow> bool" where
  "is_uuid_hex h = (length h = 32 \<and> list_all is_hex_digit h)"

lemma time_at_mono: "i \<le> j \<Longrightarrow> time_at rt i \<le> time_at rt j"
  by (induction j) (auto simp: le_Suc_eq)

lemma wait_loop_rounds:
  assumes "\<forall>j < k. still_starting (rt_get rt cid (i + j))"
    and "k = 0 \<or> time_at rt (i + k - 1) < deadline"
  shows "wait_loop rt cid timeout deadline (time_at rt i) i
           = wait_loop rt cid timeout deadline (time_at rt (i + k)) (i + k)"
  using assms
proof (induction k arbitrary: i)
  case 0
  show ?case by simp
next
  case (Suc k)
  have first: "still_starting (rt_get rt cid i)"
    using Suc.prems(1) by force
  have "time_at rt i \<le> time_at rt (i + k)"
    by (rule time_at_mono) simp
  then have now: "time_at rt i < deadline"
    using Suc.prems(2) by simp
  have step: "wait_loop rt cid timeout deadline (time_at rt i) i
      = wait_loop rt cid timeout deadline (time_at rt (Suc i)) (Suc i)"
    using first now
    by (cases "rt_get rt cid i") (simp_all add: wait_loop.simps [of rt cid timeout deadline "time_at rt i" i])
  have rest: "\<forall>j < k. still_starting (rt_get rt cid (Suc i + j))"
    using Suc.prems(1) by (metis Suc_less_eq add_Suc_right add_Suc)
  have bound: "k = 0 \<or> time_at rt (Suc i + k - 1) < deadline"
    using Suc.prems(2) by simp
  show ?case
    using step Suc.IH [OF rest bound] by simp
qed

lemma wait_loop_timeout:
  assumes "t = time_at rt i"
    and "\<forall>j \<ge> i. time_at rt j < deadline \<longrightarrow> still_starting (rt_get rt cid j)"
  shows "wait_loop rt cid timeout deadline t i
           = Inl (DockerException (''Container did not start within '' @ str_int timeout @ ''s''))"
  using assms
proof (induction rt cid timeout deadline t i rule: wait_loop.induct)
  case (1 rt cid timeout deadline t i)
  show ?case
  proof (cases "t < deadline")
    case False
    then show ?thesis
      by (simp add: wait_loop.simps [of rt cid timeout deadline t i])
  next
    case True
    then have starting: "still_starting (rt_get rt cid i)"
      using "1.prems" by simp
    then obtain st lines where found: "rt_get rt cid i = Found st lines"
      and st: "st \<noteq> ''running''" "\<not> (st = ''exited'' \<or> st = ''dead'')"
      by (cases "rt_get rt cid i") auto
    have next_time: "t + int (rt_latency rt i) + 500 = time_at rt (Suc i)"
      using "1.prems"(1) by simp
    have later: "\<forall>j \<ge> Suc i. time_at rt j < deadline \<longrightarrow> still_starting (rt_get rt cid j)"
      using "1.prems"(2) by simp
    have "wait_loop rt cid timeout deadline (t + int (rt_latency rt i) + 500) (Suc i)
        = Inl (DockerException (''Container did not start within '' @ str_int timeout @ ''s''))"
      using "1.IH" [OF True found st next_time later] .
    then show ?thesis
      using True found st by (simp add: wait_loop.simps [of rt cid timeout deadline t i])
  qed
qed

lemma wait_for_container_running:
  assumes "\<forall>j < k. still_starting (rt_get rt cid j)"
    and "rt_get rt cid k = Found ''running'' lines"
    and "time_at rt k < rt_clock rt + timeout * 1000"
  shows "wait_for_container rt cid timeout = Inr ()"
proof -
  let ?d = "rt_clock rt + timeout * 1000"
  have "time_at rt (k - 1) \<le> time_at rt k"
    by (rule time_at_mono) simp
  then have "k = 0 \<or> time_at rt (0 + k - 1) < ?d"
    using assms(3) by simp
  then have "wait_loop rt cid timeout ?d (time_at rt 0) 0 = wait_loop rt cid timeout ?d (time_at rt (0 + k)) (0 + k)"
    using assms(1) by (intro wait_loop_rounds) simp_all
  also have "\<dots> = Inr ()"
    using assms(2,3) by (simp add: wait_loop.simps [of rt cid timeout ?d "time_at rt k" k])
  finally show ?thesis
    by (simp add: wait_for_container_def)
qed

lemma wait_for_container_exited:
  assumes "\<forall>j < k. still_starting (rt_get rt cid j)"
    and "rt_get rt cid k = Found st lines" and "st = ''exited'' \<or> st = ''dead''"
    and "time_at rt k < rt_clock rt + timeout * 1000"
  shows "wait_for_container rt cid timeout
     = Inl (DockerException (''Container exited unexpectedly. Logs:'' @ [CHR 0x0A] @ logs_tail 50 lines))"
proof -
  let ?d = "rt_clock rt + timeout * 1000"
  have "time_at rt (k - 1) \<le> time_at rt k"
    by (rule time_at_mono) simp
  then have "k = 0 \<or> time_at rt (0 + k - 1) < ?d"
    using assms(4) by simp
  then have "wait_loop rt cid timeout ?d (time_at rt 0) 0 = wait_loop rt cid timeout ?d (time_at rt (0 + k)) (0 + k)"
    using assms(1) by (intro wait_loop_rounds) simp_all
  also have "\<dots> = Inl (DockerException (''Container exited unexpectedly. Logs:'' @ [CHR 0x0A] @ logs_tail 50 lines))"
    using assms(2,3,4) by (auto simp: wait_loop.simps [of rt cid timeout ?d "time_at rt k" k])
  finally show ?thesis
    by (simp add: wait_for_container_def)
qed

lemma wait_for_container_timeout:
  assumes "\<forall>j. time_at rt j < rt_clock rt + timeout * 1000 \<longrightarrow> still_starting (rt_get rt cid j)"
  shows "wait_for_container rt cid timeout
     = Inl (DockerException (''Container did not start within '' @ str_int timeout @ ''s''))"
  unfolding wait_for_container_def
  by (rule wait_loop_timeout) (use assms in simp_all)

lemma domain_id_matches:
  assumes "is_uuid_hex h"
  shows "matches_domain_id dt (dt @ ''-'' @ take 8 h)"
proof -
  have "list_all is_hex_digit (take 8 h)"
    using assms by (auto simp: is_uuid_hex_def list_all_iff dest: in_set_takeD)
  then show ?thesis
    using assms by (simp add: matches_domain_id_def is_uuid_hex_def)
qed



text \<open>The spawner and the environment of the examples.\<close>

definition test_spawner :: spawner where
  "test_spawner =
     \<lparr>default_image = ''distributed-agent-network-main-orchestrator'',
      default_network = ''distributed-agent-network_agent-network''\<rparr>"

definition test_env :: os_env where
  "test_env =
     \<lparr>api_key = [], project_root = ''/app'', path_exists = (\<lambda>_. False),
      uuid_hex = ''0123abcd4567ef890123abcd4567ef89''\<rparr>"

text \<open>
  Three runtimes that create the container: one reports it created and then running,
  one reports it exited, one never reports anything but created.
\<close>

definition starts_runtime :: runtime where
  "starts_runtime =
     \<lparr>rt_run = (\<lambda>_. Inr ''container123''),
      rt_get = (\<lambda>_ i. if i = 0 then Found ''created'' [] else Found ''running'' []),
      rt_clock = 0, rt_latency = (\<lambda>_. 0)\<rparr>"

definition exits_runtime :: runtime where
  "exits_runtime =
     \<lparr>rt_run = (\<lambda>_. Inr ''container123''),
      rt_get = (\<lambda>_ _. Found ''exited'' [''Error: startup failed'']),
      rt_clock = 0, rt_latency = (\<lambda>_. 0)\<rparr>"

definition stalls_runtime :: runtime where
  "stalls_runtime =
     \<lparr>rt_run = (\<lambda>_. Inr ''container123''),
      rt_get = (\<lambda>_ _. Found ''created'' []),
      rt_clock = 0, rt_latency = (\<lambda>_. 0)\<rparr>"


section \<open>Pending and active\<close>

lemma queue_keys_not_registry [simp]:
  "queue_key d \<noteq> ''agents:main''" "queue_key d \<noteq> info_key a" "queue_key d \<noteq> heartbeat_key a"
  "active_key d \<noteq> ''agents:main''" "active_key d \<noteq> info_key a" "active_key d \<noteq> heartbeat_key a"
  by (simp_all add: queue_key_def active_key_def info_key_def heartbeat_key_def)

lemma lists_after_deregister:
  "r_lists (snd (deregister s aid t)) (queue_key d) = r_lists s (queue_key d)"
  "r_lists (snd (deregister s aid t)) (active_key d) = r_lists s (active_key d)"
  by (simp_all add: deregister_def Let_def split: sum.splits option.splits)

lemma lists_after_heartbeat [simp]: "r_lists (snd (heartbeat s aid t)) = r_lists s"
  by (simp add: heartbeat_def Let_def)

text \<open>
  C2. Every operation keeps the invariant \<open>at_most_one\<close> for every domain \<open>d'\<close>:
  \<open>publish_task\<close> when the text it adds is new to the two lists of its domain (its
  identifier is fresh), \<open>get_next_task\<close>, \<open>complete_task\<close> and \<open>publish_result\<close>
  always, and so do \<open>register\<close>, \<open>deregister\<close> and \<open>heartbeat\<close> of the registry, which
  share the store. \<open>get_next_task\<close> on a pending list that is not empty takes its last
  element off and puts it on the active list, in one step of the store;
  \<open>complete_task\<close> changes the active list of its domain only, by one occurrence of
  the task's text.
\<close>

theorem pending_active_invariant:
  assumes inv: "at_most_one s d'"
  shows "(to_json c (new_task_message uu nw d de rq cx pr ts sr)
            \<notin> set (r_lists s (queue_key d) @ r_lists s (active_key d)) \<longrightarrow>
          at_most_one (snd (publish_task c s d de rq cx pr ts sr uu nw)) d')
       \<and> at_most_one (snd (get_next_task c s d timeout now)) d'
       \<and> at_most_one (complete_task c s d task) d'
       \<and> at_most_one (publish_result c s tid out st err now') d'
       \<and> at_most_one (snd (register s aid rl dt cid created now')) d'
       \<and> at_most_one (snd (deregister s aid now')) d'
       \<and> at_most_one (snd (heartbeat s aid now')) d'
       \<and> (r_lists s (queue_key d) \<noteq> [] \<longrightarrow>
            r_lists (snd (get_next_task c s d timeout now)) (queue_key d) @
              [last (r_lists s (queue_key d))] = r_lists s (queue_key d)
          \<and> r_lists (snd (get_next_task c s d timeout now)) (active_key d)
              = last (r_lists s (queue_key d)) # r_lists s (active_key d))
       \<and> r_lists (complete_task c s d task)
            = (r_lists s)(active_key d := remove1 (to_json c task) (r_lists s (active_key d)))"
proof -
  have publish: "at_most_one (snd (publish_task c s d de rq cx pr ts sr uu nw)) d'"
    if "to_json c (new_task_message uu nw d de rq cx pr ts sr)
            \<notin> set (r_lists s (queue_key d) @ r_lists s (active_key d))"
    using inv that by (cases "d' = d") (auto simp: at_most_one_def r_lists_publish_task)
  have next_task: "at_most_one (snd (get_next_task c s d timeout now)) d'"
  proof (cases "d' = d \<and> r_lists s (queue_key d) \<noteq> []")
    case True
    then show ?thesis
      using inv at_most_one_move [of "r_lists s (queue_key d)" "r_lists s (active_key d)"]
      by (simp add: at_most_one_def r_lists_get_next_task)
  next
    case False
    then show ?thesis
      using inv by (auto simp: at_most_one_def r_lists_get_next_task)
  qed
  have complete: "at_most_one (complete_task c s d task) d'"
    using inv by (cases "d' = d") (auto simp: at_most_one_def r_lists_complete_task dest: notin_set_remove1)
  have result: "at_most_one (publish_result c s tid out st err now') d'"
    using inv by (simp add: at_most_one_def)
  have registry: "at_most_one (snd (register s aid rl dt cid created now')) d'"
    "at_most_one (snd (deregister s aid now')) d'"
    "at_most_one (snd (heartbeat s aid now')) d'"
    using inv by (simp_all add: at_most_one_def lists_after_deregister)
  show ?thesis
    using publish next_task complete result registry
    by (simp add: r_lists_get_next_task r_lists_complete_task)
qed

theorem pending_active_invariant_witness:
  "at_most_one two_published ''backend''
   \<and> at_most_one
        (snd (publish_task (example_codec [task_a, task_b]) two_published ''backend''
                ''Task 2'' None None ''normal'' 300 ''test'' ''task-c'' ''09:02'')) ''backend''
   \<and> at_most_one
        (snd (get_next_task (example_codec [task_a, task_b]) two_published ''backend'' 0 ''09:02''))
        ''backend''
   \<and> r_lists (snd (get_next_task (example_codec [task_a, task_b]) two_published ''backend'' 0 ''09:02''))
        (queue_key ''backend'') = [''task-b'']
   \<and> r_lists (snd (get_next_task (example_codec [task_a, task_b]) two_published ''backend'' 0 ''09:02''))
        (active_key ''backend'') = [''task-a'']"
  using pending_active_invariant [where s = two_published and d' = "''backend''"
      and c = "example_codec [task_a, task_b]" and uu = "''task-c''" and nw = "''09:02''"
      and d = "''backend''" and de = "''Task 2''" and rq = None and cx = None
      and pr = "''normal''" and ts = 300 and sr = "''test''" and timeout = 0 and now = "''09:02''"]
  by (simp add: at_most_one_def two_published_pending two_published_active example_codec_def
      new_task_message_def)

end
